theory Spec2Isabelle
  imports Complex_Main "HOL-Library.Sublist"
begin

section \<open>Conventions of the embedding\<close>

text \<open>
  The Python sources compute with \<open>float\<close>; the embedding computes with \<^typ>\<open>real\<close>, so
  every statement below is about the exact arithmetic of the formulas, not about IEEE
  rounding. \<open>Optional[float]\<close> is \<^typ>\<open>real option\<close>. An exception is a value of
  \<open>py_error\<close> on the left of a sum.

  Regular-expression matching (\<open>re.findall\<close>) and the linear regression of
  \<open>scipy.stats.linregress\<close> are library code outside the repository: both are taken as
  parameters of the functions that call them. A match is taken as the number that
  \<open>float\<close> makes of it.

  Where the source reads a list or an optional value under a guard (\<open>max_depth\<close> after
  the test of its truth value, \<open>depths_measured[i]\<close> after the test of the lengths,
  \<open>values_clean[0]\<close> after the test for two pairs), the model reads it with \<open>the\<close>,
  \<open>!\<close>, \<open>hd\<close> or \<open>last\<close> under the same guard.
\<close>

datatype py_error = ZeroDivisionError | ValueError | OverflowError

text \<open>Python's \<open>a / b\<close> on floats raises on a zero divisor.\<close>

definition py_div :: "real \<Rightarrow> real \<Rightarrow> py_error + real" where
  "py_div a b = (if b = 0 then Inl ZeroDivisionError else Inr (a / b))"

text \<open>
  Python's \<open>x ** 2\<close> on floats raises \<open>OverflowError\<close> when the result is out of the
  range of a double, which in rounding to nearest is from \<open>2^1024 - 2^970\<close> on. A
  product or a quotient that is out of range is \<open>inf\<close> and does not raise.
\<close>

definition float_overflow :: "real \<Rightarrow> bool" where
  "float_overflow x = (\<bar>x\<bar> \<ge> 2 ^ 1024 - 2 ^ 970)"

definition py_square :: "real \<Rightarrow> py_error + real" where
  "py_square x = (if float_overflow (x ^ 2) then Inl OverflowError else Inr (x ^ 2))"

text \<open>Truth value of an \<open>Optional[float]\<close> in a condition: \<open>None\<close> and \<open>0.0\<close> are false.\<close>

definition truthy :: "real option \<Rightarrow> bool" where
  "truthy v = (case v of None \<Rightarrow> False | Some x \<Rightarrow> x \<noteq> 0)"

text \<open>\<open>s in text\<close> on strings: \<open>s\<close> occurs as a contiguous piece of \<open>text\<close>.\<close>

fun py_in :: "string \<Rightarrow> string \<Rightarrow> bool" where
  "py_in s [] = (s = [])"
| "py_in s (c # cs) = (prefix s (c # cs) \<or> py_in s cs)"


section \<open>src/core/advanced_analysis.py: the data model\<close>

record ExtractedDOData =
  has_do_measurements :: bool
  do_values :: "real list"
  depths_measured :: "real list"
  measurement_locations :: "string list"
  oxycline_depth :: "real option"
  minimum_do :: "real option"
  measured_to_bottom :: bool
  measurement_frequency :: string
  summer_months_covered :: "string list"

definition new_ExtractedDOData :: ExtractedDOData where
  "new_ExtractedDOData =
     \<lparr> has_do_measurements = False, do_values = [], depths_measured = [],
       measurement_locations = [], oxycline_depth = None, minimum_do = None,
       measured_to_bottom = False, measurement_frequency = ''unknown'',
       summer_months_covered = [] \<rparr>"

record ExtractedNutrientData =
  has_orthophosphate :: bool
  has_ammonia :: bool
  orthophosphate_values :: "real list"
  ammonia_values :: "real list"
  srp_below_oxycline :: "real option"
  ammonia_below_oxycline :: "real option"
  measured_at_depth :: bool
  hypolimnion_srp :: "real option"

definition new_ExtractedNutrientData :: ExtractedNutrientData where
  "new_ExtractedNutrientData =
     \<lparr> has_orthophosphate = False, has_ammonia = False, orthophosphate_values = [],
       ammonia_values = [], srp_below_oxycline = None, ammonia_below_oxycline = None,
       measured_at_depth = False, hypolimnion_srp = None \<rparr>"

text \<open>
  \<open>HypsographicData\<close>; the two lists of depth pairs are never written or read by the
  extractor and are left out.
\<close>

record HypsographicData =
  has_hypsographic_table :: bool
  has_bathymetry_map :: bool
  max_depth :: "real option"
  total_volume :: "real option"
  total_surface_area :: "real option"
  can_calculate_hypoxic_volume :: bool

definition new_HypsographicData :: HypsographicData where
  "new_HypsographicData =
     \<lparr> has_hypsographic_table = False, has_bathymetry_map = False, max_depth = None,
       total_volume = None, total_surface_area = None,
       can_calculate_hypoxic_volume = False \<rparr>"

text \<open>
  The calculation notes are formatted strings in the source. The embedding keeps which
  note it is and the numbers that are formatted into it.
\<close>

datatype calculation_note =
    HypoxicVolumeEstimated real real
      \<comment> \<open>"Hypoxic volume estimated based on oxycline depth (..m) and total volume (.. m3)"\<close>
  | HypoxicSedimentAreaEstimated real
      \<comment> \<open>"Hypoxic sediment area estimated: .. m2"\<close>
  | BiomassPotentialNote real real
      \<comment> \<open>"Phytoplankton Biomass Potential: .. tonnes (based on .. kg available P ...)"\<close>
  | SrpButVolumeUnknown
      \<comment> \<open>"Cannot calculate Biomass Potential: SRP data available but hypoxic volume unknown. ..."\<close>
  | VolumeButNoSrp
      \<comment> \<open>"Cannot calculate Biomass Potential: Hypoxic volume available but no SRP data ..."\<close>

record CalculatedMetrics =
  hypoxic_water_volume :: "real option"
  hypoxic_volume_percentage :: "real option"
  hypoxic_sediment_area :: "real option"
  hypoxic_area_percentage :: "real option"
  phytoplankton_biomass_potential :: "real option"
  biomass_potential_tonnes :: "real option"
  calculation_notes :: "calculation_note list"

definition new_CalculatedMetrics :: CalculatedMetrics where
  "new_CalculatedMetrics =
     \<lparr> hypoxic_water_volume = None, hypoxic_volume_percentage = None,
       hypoxic_sediment_area = None, hypoxic_area_percentage = None,
       phytoplankton_biomass_potential = None, biomass_potential_tonnes = None,
       calculation_notes = [] \<rparr>"


section \<open>AdvancedDataExtractor: the derivation of \<open>_perform_calculations\<close>\<close>

text \<open>
  The source function (advanced_analysis.py, lines 418 to 493) is three blocks run in
  order on one \<open>metrics\<close> object. Each block is a function from the metrics so far to
  the metrics after it.

  First block (lines 429 to 446): the hypoxic volume. The division is reached under the
  guard only; the square raises when the depth fraction is too large for its square to
  be a float.
\<close>

definition calc_hypoxic_volume ::
  "ExtractedDOData \<Rightarrow> HypsographicData \<Rightarrow> CalculatedMetrics \<Rightarrow> py_error + CalculatedMetrics" where
  "calc_hypoxic_volume do_data hypso_data metrics =
     (case oxycline_depth do_data of
        None \<Rightarrow> Inr metrics
      | Some oxy \<Rightarrow>
          if can_calculate_hypoxic_volume hypso_data then
            (if truthy (total_volume hypso_data) \<and> truthy (max_depth hypso_data) then
               (case py_div (the (max_depth hypso_data) - oxy) (the (max_depth hypso_data)) of
                  Inl e \<Rightarrow> Inl e
                | Inr hypoxic_depth_fraction \<Rightarrow>
                    (case py_square hypoxic_depth_fraction of
                       Inl e \<Rightarrow> Inl e
                     | Inr estimated_hypoxic_fraction \<Rightarrow>
                         Inr (metrics
                           \<lparr> hypoxic_water_volume :=
                               Some (the (total_volume hypso_data) * estimated_hypoxic_fraction),
                             hypoxic_volume_percentage := Some (estimated_hypoxic_fraction * 100),
                             calculation_notes := calculation_notes metrics @
                               [HypoxicVolumeEstimated oxy (the (total_volume hypso_data))] \<rparr>)))
             else Inr metrics)
          else Inr metrics)"

text \<open>
  Second block (lines 448 to 458): the hypoxic sediment area. \<open>x ** 0.5\<close> is the square root; the
  percentage it is applied to is a square times 100 whenever the first block wrote it,
  and the square root of a float is in range.
\<close>

definition calc_hypoxic_sediment_area ::
  "HypsographicData \<Rightarrow> CalculatedMetrics \<Rightarrow> CalculatedMetrics" where
  "calc_hypoxic_sediment_area hypso_data metrics =
     (if truthy (total_surface_area hypso_data) \<and> truthy (hypoxic_volume_percentage metrics) then
        (let estimated_area_fraction = sqrt (the (hypoxic_volume_percentage metrics) / 100);
             area = the (total_surface_area hypso_data) * estimated_area_fraction
         in metrics
              \<lparr> hypoxic_sediment_area := Some area,
                hypoxic_area_percentage := Some (estimated_area_fraction * 100),
                calculation_notes := calculation_notes metrics @
                  [HypoxicSedimentAreaEstimated area] \<rparr>)
      else metrics)"

text \<open>
  Third block (lines 460 to 491): the phytoplankton biomass potential, or a note on what
  is missing.
\<close>

definition calc_biomass_potential ::
  "ExtractedNutrientData \<Rightarrow> CalculatedMetrics \<Rightarrow> CalculatedMetrics" where
  "calc_biomass_potential nutrient_data metrics =
     (if truthy (hypoxic_water_volume metrics) \<and> truthy (hypolimnion_srp nutrient_data) then
        (let srp_g_per_m3 = the (hypolimnion_srp nutrient_data);
             total_p_grams = the (hypoxic_water_volume metrics) * srp_g_per_m3;
             total_p_kg = total_p_grams / 1000;
             biomass = total_p_kg * 100;
             tonnes = biomass / 1000
         in metrics
              \<lparr> phytoplankton_biomass_potential := Some biomass,
                biomass_potential_tonnes := Some tonnes,
                calculation_notes := calculation_notes metrics @
                  [BiomassPotentialNote tonnes total_p_kg] \<rparr>)
      else if truthy (hypolimnion_srp nutrient_data) \<and> \<not> truthy (hypoxic_water_volume metrics) then
        metrics \<lparr> calculation_notes := calculation_notes metrics @ [SrpButVolumeUnknown] \<rparr>
      else if truthy (hypoxic_water_volume metrics) \<and> \<not> truthy (hypolimnion_srp nutrient_data) then
        metrics \<lparr> calculation_notes := calculation_notes metrics @ [VolumeButNoSrp] \<rparr>
      else metrics)"

definition perform_calculations ::
  "ExtractedDOData \<Rightarrow> ExtractedNutrientData \<Rightarrow> HypsographicData \<Rightarrow> py_error + CalculatedMetrics" where
  "perform_calculations do_data nutrient_data hypso_data =
     (case calc_hypoxic_volume do_data hypso_data new_CalculatedMetrics of
        Inl e \<Rightarrow> Inl e
      | Inr metrics \<Rightarrow>
          Inr (calc_biomass_potential nutrient_data
                 (calc_hypoxic_sediment_area hypso_data metrics)))"

section \<open>AdvancedDataExtractor: extraction\<close>

text \<open>
  The regular expressions of the extractor, by the list they stand in and their position
  there. \<open>re.findall\<close> with the conversion of each match by \<open>float\<close> is the parameter
  \<open>re_findall\<close>: the matched numbers of one pattern in the text, in text order.
\<close>

datatype regex =
    DO_dissolved_oxygen  \<comment> \<open>first of do_patterns: "dissolved oxygen", a number, "mg/l"\<close>
  | DO_do                \<comment> \<open>second of do_patterns: "do", a number, "mg/l"\<close>
  | DO_value_first       \<comment> \<open>third of do_patterns: a number, "mg/l", "dissolved oxygen" or "do"\<close>
  | DO_oxygen            \<comment> \<open>fourth of do_patterns: "oxygen", a number, "mg/l"\<close>
  | Depth_value_first    \<comment> \<open>first of depth_patterns: a number, "m", "depth" or "deep"\<close>
  | Depth_label          \<comment> \<open>second of depth_patterns: "depth", a number, "m"\<close>
  | Depth_at             \<comment> \<open>third of depth_patterns: "at", a number, "m"\<close>
  | Max_depth_pattern    \<comment> \<open>max_depth_pattern: "maximum depth" and the like, a number, a unit\<close>
  | Volume_total         \<comment> \<open>first of volume_patterns: "total volume" or "lake volume", a number, a unit\<close>
  | Volume_plain         \<comment> \<open>second of volume_patterns: "volume", a number, a unit\<close>
  | Area_surface         \<comment> \<open>first of area_patterns: "surface area" or "lake area", a number, a unit\<close>
  | Area_plain           \<comment> \<open>second of area_patterns: "area", a number, a unit\<close>

type_synonym findall = "regex \<Rightarrow> string \<Rightarrow> real list"

definition do_patterns :: "regex list" where
  "do_patterns = [DO_dissolved_oxygen, DO_do, DO_value_first, DO_oxygen]"

definition depth_patterns :: "regex list" where
  "depth_patterns = [Depth_value_first, Depth_label, Depth_at]"

definition volume_patterns :: "regex list" where
  "volume_patterns = [Volume_total, Volume_plain]"

definition area_patterns :: "regex list" where
  "area_patterns = [Area_surface, Area_plain]"

text \<open>
  \<open>for pattern in patterns: matches = findall(..); if matches: x = matches[0]; break\<close>
\<close>

fun first_match :: "findall \<Rightarrow> regex list \<Rightarrow> string \<Rightarrow> real option" where
  "first_match re_findall [] text = None"
| "first_match re_findall (pattern # patterns) text =
     (case re_findall pattern text of
        [] \<Rightarrow> first_match re_findall patterns text
      | m # _ \<Rightarrow> Some m)"

definition hypso_indicators :: "string list" where
  "hypso_indicators =
     [''hypsographic'', ''depth-area'', ''depth-volume'', ''area-volume'',
      ''morphometric'', ''bathymetric table'', ''volume at depth'']"

definition bathy_indicators :: "string list" where
  "bathy_indicators = [''bathymetry'', ''bathymetric map'', ''depth contour'', ''isobath'']"

text \<open>\<open>_extract_hypsographic_data\<close> (advanced_analysis.py, lines 330 to 382).\<close>

definition extract_hypsographic_data :: "findall \<Rightarrow> string \<Rightarrow> HypsographicData" where
  "extract_hypsographic_data re_findall text =
     (let data = new_HypsographicData
            \<lparr> has_hypsographic_table := list_ex (\<lambda>ind. py_in ind text) hypso_indicators,
              has_bathymetry_map := list_ex (\<lambda>ind. py_in ind text) bathy_indicators \<rparr>;
          data = (case re_findall Max_depth_pattern text of
                    [] \<Rightarrow> data
                  | m # _ \<Rightarrow> data \<lparr> max_depth := Some m \<rparr>);
          data = (case first_match re_findall volume_patterns text of
                    None \<Rightarrow> data
                  | Some v \<Rightarrow> data \<lparr> total_volume := Some v \<rparr>);
          data = (case first_match re_findall area_patterns text of
                    None \<Rightarrow> data
                  | Some a \<Rightarrow> data \<lparr> total_surface_area := Some a \<rparr>)
      in data \<lparr> can_calculate_hypoxic_volume :=
                  (has_hypsographic_table data \<or>
                   (total_volume data \<noteq> None \<and> max_depth data \<noteq> None)) \<rparr>)"

text \<open>
  An example document: its text, and what the patterns match in it.
\<close>

definition morphometry_text :: string where
  "morphometry_text = ''maximum depth: 20 m. total volume: 100,000 m3.''"

fun morphometry_findall :: findall where
  "morphometry_findall Max_depth_pattern text = [20]"
| "morphometry_findall Depth_label text = [20]"
| "morphometry_findall Volume_total text = [100000]"
| "morphometry_findall Volume_plain text = [100000]"
| "morphometry_findall pattern text = []"

text \<open>The same lake with a volume of zero in the text.\<close>

definition zero_volume_text :: string where
  "zero_volume_text = ''maximum depth: 20 m. total volume: 0 m3.''"

fun zero_volume_findall :: findall where
  "zero_volume_findall Max_depth_pattern text = [20]"
| "zero_volume_findall Depth_label text = [20]"
| "zero_volume_findall Volume_total text = [0]"
| "zero_volume_findall Volume_plain text = [0]"
| "zero_volume_findall pattern text = []"

text \<open>The same lake with a maximum depth of zero in the text.\<close>

definition zero_depth_text :: string where
  "zero_depth_text = ''maximum depth: 0 m. total volume: 100,000 m3.''"

fun zero_depth_findall :: findall where
  "zero_depth_findall Max_depth_pattern text = [0]"
| "zero_depth_findall Depth_label text = [0]"
| "zero_depth_findall Volume_total text = [100000]"
| "zero_depth_findall Volume_plain text = [100000]"
| "zero_depth_findall pattern text = []"

text \<open>A lake of one metre, for an oxycline depth read as a number of 156 digits.\<close>

definition shallow_text :: string where
  "shallow_text = ''maximum depth: 1 m. total volume: 5 m3.''"

fun shallow_findall :: findall where
  "shallow_findall Max_depth_pattern text = [1]"
| "shallow_findall Depth_label text = [1]"
| "shallow_findall Volume_total text = [5]"
| "shallow_findall Volume_plain text = [5]"
| "shallow_findall pattern text = []"

definition oxycline_at :: "real \<Rightarrow> ExtractedDOData" where
  "oxycline_at oxy = new_ExtractedDOData \<lparr> oxycline_depth := Some oxy \<rparr>"

definition srp_of :: "real \<Rightarrow> ExtractedNutrientData" where
  "srp_of s = new_ExtractedNutrientData \<lparr> hypolimnion_srp := Some s \<rparr>"


section \<open>AdvancedDataExtractor: dissolved oxygen\<close>

definition bottom_indicators :: "string list" where
  "bottom_indicators = [''bottom'', ''deepest'', ''maximum depth'', ''near-bottom'', ''benthic'']"

definition summer_months :: "string list" where
  "summer_months = [''june'', ''july'', ''august'', ''september'']"

text \<open>
  \<open>for i, do_val in enumerate(data.do_values): if do_val < 2.5: ... depths_measured[i]; break\<close>
\<close>

fun oxycline_loop :: "real list \<Rightarrow> real list \<Rightarrow> nat \<Rightarrow> real option" where
  "oxycline_loop [] depths i = None"
| "oxycline_loop (do_val # rest) depths i =
     (if do_val < 5 / 2 then Some (depths ! i) else oxycline_loop rest depths (Suc i))"

text \<open>The last block of \<open>_extract_do_data\<close>: the oxycline depth, if it can be told.\<close>

definition calc_oxycline_depth :: "ExtractedDOData \<Rightarrow> ExtractedDOData" where
  "calc_oxycline_depth data =
     (if do_values data \<noteq> [] \<and> depths_measured data \<noteq> [] \<and>
         length (do_values data) = length (depths_measured data) then
        (case oxycline_loop (do_values data) (depths_measured data) 0 of
           None \<Rightarrow> data
         | Some depth \<Rightarrow> data \<lparr> oxycline_depth := Some depth \<rparr>)
      else data)"

text \<open>
  \<open>_extract_do_data\<close> (advanced_analysis.py, lines 185 to 245) is six blocks run in order on one \<open>data\<close> object, each a
  function from the data so far to the data after it. \<open>metrics\<close> is the dictionary of
  numbers that came with the document; the extractor reads its entry
  \<open>dissolved_oxygen_values\<close> only. \<open>min\<close> of a non-empty list is the fold of \<open>min\<close>
  over it.
\<close>

text \<open>
  \<open>for pattern in patterns: matches = re.findall(pattern, text); values.extend(...)\<close>
\<close>

definition findall_each :: "findall \<Rightarrow> regex list \<Rightarrow> string \<Rightarrow> real list" where
  "findall_each re_findall patterns text =
     concat (map (\<lambda>pattern. re_findall pattern text) patterns)"

definition check_do_measurements ::
  "findall \<Rightarrow> string \<Rightarrow> (string \<rightharpoonup> real list) \<Rightarrow> ExtractedDOData \<Rightarrow> ExtractedDOData" where
  "check_do_measurements re_findall text metrics data =
     (let found_values = findall_each re_findall do_patterns text;
          metrics_values = (case metrics ''dissolved_oxygen_values'' of
                              None \<Rightarrow> [] | Some vs \<Rightarrow> vs)
      in if found_values \<noteq> [] \<or> metrics_values \<noteq> [] then
           (let data = data
                  \<lparr> has_do_measurements := True,
                    do_values := (if found_values \<noteq> [] then found_values
                                  else metrics_values) \<rparr>
            in case do_values data of
                 [] \<Rightarrow> data
               | v # vs \<Rightarrow> data \<lparr> minimum_do := Some (fold min vs v) \<rparr>)
         else data)"

definition extract_depths :: "findall \<Rightarrow> string \<Rightarrow> ExtractedDOData \<Rightarrow> ExtractedDOData" where
  "extract_depths re_findall text data =
     data \<lparr> depths_measured := depths_measured data @
              findall_each re_findall depth_patterns text \<rparr>"

definition check_measured_to_bottom :: "string \<Rightarrow> ExtractedDOData \<Rightarrow> ExtractedDOData" where
  "check_measured_to_bottom text data =
     data \<lparr> measured_to_bottom := list_ex (\<lambda>ind. py_in ind text) bottom_indicators \<rparr>"

definition check_measurement_frequency :: "string \<Rightarrow> ExtractedDOData \<Rightarrow> ExtractedDOData" where
  "check_measurement_frequency text data =
     (if py_in ''monthly'' text then data \<lparr> measurement_frequency := ''monthly'' \<rparr>
      else if py_in ''weekly'' text then data \<lparr> measurement_frequency := ''weekly'' \<rparr>
      else if py_in ''quarterly'' text then data \<lparr> measurement_frequency := ''quarterly'' \<rparr>
      else if py_in ''annual'' text \<or> py_in ''yearly'' text then
        data \<lparr> measurement_frequency := ''annual'' \<rparr>
      else data)"

definition check_summer_months :: "string \<Rightarrow> ExtractedDOData \<Rightarrow> ExtractedDOData" where
  "check_summer_months text data =
     data \<lparr> summer_months_covered := summer_months_covered data @
              filter (\<lambda>month. py_in month text) summer_months \<rparr>"

definition extract_do_data ::
  "findall \<Rightarrow> string \<Rightarrow> (string \<rightharpoonup> real list) \<Rightarrow> ExtractedDOData" where
  "extract_do_data re_findall text metrics =
     calc_oxycline_depth
       (check_summer_months text
         (check_measurement_frequency text
           (check_measured_to_bottom text
             (extract_depths re_findall text
               (check_do_measurements re_findall text metrics new_ExtractedDOData)))))"

text \<open>A profile of three samples, and what the patterns match in it.\<close>

definition profile_text :: string where
  "profile_text =
     ''depth: 0 m, do: 8.5 mg/l; depth: 5 m, do: 6.2 mg/l; depth: 10 m, do: 1.2 mg/l''"

fun profile_findall :: findall where
  "profile_findall DO_do text = [17 / 2, 31 / 5, 6 / 5]"
| "profile_findall Depth_label text = [0, 5, 10]"
| "profile_findall pattern text = []"

text \<open>One reading in the text, and a lower one in the metrics that came with it.\<close>

definition reading_text :: string where
  "reading_text = ''do: 5.0 mg/l''"

fun reading_findall :: findall where
  "reading_findall DO_do text = [5]"
| "reading_findall pattern text = []"

text \<open>A text in which no pattern matches.\<close>

fun no_match_findall :: findall where
  "no_match_findall pattern text = []"

definition reading_metrics :: "string \<rightharpoonup> real list" where
  "reading_metrics = [''dissolved_oxygen_values'' \<mapsto> [1]]"


section \<open>src/core/lake_assessment.py: trends\<close>

datatype direction = Stable | Increasing | Decreasing | NoClearTrend

datatype trend_status = InsufficientData | Analyzed

text \<open>
  The dictionary that \<open>_calculate_trend\<close> returns; a key that the dictionary does not
  have is \<open>None\<close> here.
\<close>

record trend_stats =
  trend :: trend_status
  direction :: "direction option"
  slope :: "real option"
  r_squared :: "real option"
  p_value :: "real option"
  change_rate :: "real option"
  first_value :: "real option"
  last_value :: "real option"
  values_of :: "real option list"

text \<open>
  \<open>stats.linregress(x, y)\<close> returns slope, intercept, r, p and the standard error, or
  raises. Its r is a correlation coefficient, between -1 and 1, so that \<open>r_value ** 2\<close>
  is in range.
\<close>

type_synonym linregress = "int list \<Rightarrow> real list \<Rightarrow> py_error + (real \<times> real \<times> real \<times> real \<times> real)"

text \<open>
  \<open>_calculate_trend\<close> (lake_assessment.py, lines 232 to 286). Its first line is
  \<open>[(y, v) for y, v in zip(years, values) if v is not None]\<close>.
\<close>

fun clean_data :: "(int \<times> real option) list \<Rightarrow> (int \<times> real) list" where
  "clean_data [] = []"
| "clean_data ((y, None) # rest) = clean_data rest"
| "clean_data ((y, Some v) # rest) = (y, v) # clean_data rest"

definition calculate_trend ::
  "linregress \<Rightarrow> int list \<Rightarrow> real option list \<Rightarrow> py_error + trend_stats" where
  "calculate_trend linregress years vals =
     (let cleaned = clean_data (zip years vals) in
      if length cleaned < 2 then
        Inr \<lparr> trend = InsufficientData, direction = None, slope = None, r_squared = None,
              p_value = None, change_rate = None, first_value = None, last_value = None,
              values_of = vals \<rparr>
      else
        (let years_clean = map fst cleaned; values_clean = map snd cleaned in
         case linregress years_clean values_clean of
           Inl e \<Rightarrow> Inl e
         | Inr (slope_v, intercept, r_value, p, std_err) \<Rightarrow>
             (let dir = (if p < 5 / 100 then
                           (if \<bar>slope_v\<bar> < 1 / 100 then Stable
                            else if slope_v > 0 then Increasing
                            else Decreasing)
                         else NoClearTrend)
              in case (if hd values_clean \<noteq> 0 then
                         (case py_div (last values_clean - hd values_clean) \<bar>hd values_clean\<bar> of
                            Inl e \<Rightarrow> Inl e
                          | Inr q \<Rightarrow> Inr (Some (q * 100)))
                       else Inr None) of
                   Inl e \<Rightarrow> Inl e
                 | Inr total_change \<Rightarrow>
                     Inr \<lparr> trend = Analyzed, direction = Some dir, slope = Some slope_v,
                           r_squared = Some (r_value ^ 2), p_value = Some p,
                           change_rate = total_change,
                           first_value = Some (hd values_clean),
                           last_value = Some (last values_clean),
                           values_of = vals \<rparr>)))"


section \<open>LakeAssessment: reports, grouping and trend analysis\<close>

text \<open>
  A report is the dictionary of one analysed document. Of its entries the assessment
  reads the metrics, the overall score of the compliance evaluation, and the two
  entries that grouping writes: \<open>extracted_year\<close> and \<open>lake_name\<close>.
\<close>

record report =
  filename :: string
  report_metrics :: "string \<rightharpoonup> real"
  compliance_score :: "real option"
  extracted_year :: "int option"
  lake_name :: "string option"

definition minimum_reports_for_trends :: nat where
  "minimum_reports_for_trends = 3"

text \<open>
  \<open>extract_lake_name_and_year\<close> reads a name and a year out of the file name and the
  text with regular expressions; it is a parameter of the grouping.
\<close>

type_synonym name_and_year = "report \<Rightarrow> string option \<times> int option"

text \<open>
  \<open>lake_name.lower().strip()\<close>. A \<open>char\<close> is a code point below 256: the capital
  letters there are A to Z and the code points 192 to 222 without the multiplication
  sign 215, each 32 below its small letter; the white space there is 9 to 13, 28 to 32,
  133 and 160.
\<close>

definition py_lower :: "string \<Rightarrow> string" where
  "py_lower s =
     map (\<lambda>c. let k = (of_char c :: nat) in
               if (65 \<le> k \<and> k \<le> 90) \<or> (192 \<le> k \<and> k \<le> 222 \<and> k \<noteq> 215)
               then char_of (k + 32) else c) s"

definition py_is_space :: "char \<Rightarrow> bool" where
  "py_is_space c =
     ((of_char c :: nat) \<in> {9, 10, 11, 12, 13, 28, 29, 30, 31, 32, 133, 160})"

definition py_strip :: "string \<Rightarrow> string" where
  "py_strip s = rev (dropWhile py_is_space (rev (dropWhile py_is_space s)))"

text \<open>
  \<open>group_reports_by_lake\<close> (lake_assessment.py, lines 133 to 163).
  \<open>if normalized_name not in lake_groups: lake_groups[normalized_name] = []\<close> and the
  \<open>append\<close>, on a dictionary that keeps the order of insertion. The sort of each
  group by year is stable, as \<open>sort_key\<close> is.
\<close>

fun add_to_group :: "string \<Rightarrow> report \<Rightarrow> (string \<times> report list) list \<Rightarrow> (string \<times> report list) list" where
  "add_to_group k r [] = [(k, [r])]"
| "add_to_group k r ((k', rs) # groups) =
     (if k = k' then (k', rs @ [r]) # groups else (k', rs) # add_to_group k r groups)"

definition year_or_zero :: "report \<Rightarrow> int" where
  "year_or_zero r = (case extracted_year r of None \<Rightarrow> 0 | Some y \<Rightarrow> y)"

definition group_reports_by_lake ::
  "name_and_year \<Rightarrow> report list \<Rightarrow> (string \<times> report list) list" where
  "group_reports_by_lake extract_lake_name_and_year reports =
     (let lake_groups =
            fold (\<lambda>r groups.
                    case extract_lake_name_and_year r of
                      (Some name, year) \<Rightarrow>
                        if name \<noteq> [] then
                          add_to_group (py_strip (py_lower name))
                            (r \<lparr> extracted_year := year, lake_name := Some name \<rparr>) groups
                        else groups
                    | (None, year) \<Rightarrow> groups)
                 reports []
      in map (\<lambda>(name, rs). (name, sort_key year_or_zero rs)) lake_groups)"

text \<open>
  \<open>analyze_parameter_trends\<close> (lake_assessment.py, lines 165 to 230). Its years are
  \<open>[r.get('extracted_year') for r in reports if r.get('extracted_year')]\<close>.
\<close>

fun years_of :: "report list \<Rightarrow> int list" where
  "years_of [] = []"
| "years_of (r # rs) =
     (case extracted_year r of
        None \<Rightarrow> years_of rs
      | Some y \<Rightarrow> if y \<noteq> 0 then y # years_of rs else years_of rs)"

definition parameters_to_track :: "string list" where
  "parameters_to_track =
     [''dissolved_oxygen_min'', ''hypoxic_volume'', ''hypoxic_percentage'',
      ''orthophosphate_max'', ''ammonia_max'', ''cyanobacteria_percentage'',
      ''compliance_score'']"

definition parameter_value :: "string \<Rightarrow> report \<Rightarrow> real option" where
  "parameter_value param r =
     (if param = ''compliance_score'' then compliance_score r else report_metrics r param)"

text \<open>
  The loop over the tracked parameters; \<open>parameters\<close> is the dictionary filled so far,
  in insertion order.
\<close>

fun track_parameters ::
  "linregress \<Rightarrow> int list \<Rightarrow> report list \<Rightarrow> string list \<Rightarrow> (string \<times> trend_stats) list
     \<Rightarrow> py_error + (string \<times> trend_stats) list" where
  "track_parameters linregress years reports [] parameters = Inr parameters"
| "track_parameters linregress years reports (param # rest) parameters =
     (let vals = map (parameter_value param) reports in
      if list_ex (\<lambda>v. v \<noteq> None) vals then
        (case calculate_trend linregress years vals of
           Inl e \<Rightarrow> Inl e
         | Inr t \<Rightarrow> track_parameters linregress years reports rest (parameters @ [(param, t)]))
      else track_parameters linregress years reports rest parameters)"

text \<open>
  The three counters of \<open>_determine_overall_trajectory\<close> (lines 288 to 337):
  improving, degrading, stable.
\<close>

fun tally :: "(string \<times> trend_stats) list \<Rightarrow> nat \<times> nat \<times> nat \<Rightarrow> nat \<times> nat \<times> nat" where
  "tally [] counts = counts"
| "tally ((param, trend_data) # rest) (improving, degrading, stable') =
     tally rest
       (case direction trend_data of
          None \<Rightarrow> (improving, degrading, stable')
        | Some dir \<Rightarrow>
            if param \<in> set [''dissolved_oxygen_min'', ''compliance_score''] then
              (if dir = Increasing then (improving + 1, degrading, stable')
               else if dir = Decreasing then (improving, degrading + 1, stable')
               else (improving, degrading, stable' + 1))
            else if param \<in> set [''hypoxic_volume'', ''hypoxic_percentage'',
                                  ''orthophosphate_max'', ''ammonia_max'',
                                  ''cyanobacteria_percentage''] then
              (if dir = Decreasing then (improving + 1, degrading, stable')
               else if dir = Increasing then (improving, degrading + 1, stable')
               else (improving, degrading, stable' + 1))
            else (improving, degrading, stable'))"

definition determine_overall_trajectory :: "(string \<times> trend_stats) list \<Rightarrow> string" where
  "determine_overall_trajectory parameter_trends =
     (case tally parameter_trends (0, 0, 0) of
        (improving, degrading, stable') \<Rightarrow>
          if degrading > improving then
            (if degrading \<ge> 3 then ''Significant Degradation - Immediate Action Required''
             else ''Gradual Degradation - Intervention Recommended'')
          else if improving > degrading then
            (if improving \<ge> 3 then ''Significant Improvement - Continue Current Management''
             else ''Gradual Improvement - Maintain Efforts'')
          else ''Stable - Monitor Closely for Changes'')"

text \<open>
  The key findings are formatted sentences; the embedding keeps which sentence it is,
  the parameter and the number formatted into it.
\<close>

datatype finding =
    IncreasedBy string real
  | ShowsIncreasingTrend string
  | DecreasedBy string real
  | ShowsDecreasingTrend string
  | RemainedStable string

fun key_finding :: "string \<times> trend_stats \<Rightarrow> finding list" where
  "key_finding (param, t) =
     (case direction t of
        None \<Rightarrow> []
      | Some NoClearTrend \<Rightarrow> []
      | Some Increasing \<Rightarrow>
          (if truthy (change_rate t) then [IncreasedBy param \<bar>the (change_rate t)\<bar>]
           else [ShowsIncreasingTrend param])
      | Some Decreasing \<Rightarrow>
          (if truthy (change_rate t) then [DecreasedBy param \<bar>the (change_rate t)\<bar>]
           else [ShowsDecreasingTrend param])
      | Some Stable \<Rightarrow> [RemainedStable param])"

definition generate_key_findings :: "(string \<times> trend_stats) list \<Rightarrow> finding list" where
  "generate_key_findings parameter_trends = take 5 (concat (map key_finding parameter_trends))"

definition direction_of :: "(string \<times> trend_stats) list \<Rightarrow> string \<Rightarrow> direction option" where
  "direction_of parameter_trends param =
     (case map_of parameter_trends param of None \<Rightarrow> None | Some t \<Rightarrow> direction t)"

definition generate_trend_recommendations :: "(string \<times> trend_stats) list \<Rightarrow> string list" where
  "generate_trend_recommendations parameter_trends =
     (let recommendations =
            (if direction_of parameter_trends ''hypoxic_volume'' = Some Increasing then
               [''Hypoxic volume is increasing - implement aeration or nutrient reduction strategies immediately'']
             else if direction_of parameter_trends ''hypoxic_volume'' = Some Decreasing then
               [''Hypoxic volume is decreasing - continue current management practices'']
             else []) @
            (if direction_of parameter_trends ''dissolved_oxygen_min'' = Some Decreasing then
               [''Dissolved oxygen is declining - investigate causes and consider intervention'']
             else []) @
            (if list_ex (\<lambda>param. direction_of parameter_trends param = Some Increasing)
                  [''orthophosphate_max'', ''ammonia_max''] then
               [''Nutrient levels are increasing - review watershed management and implement source controls'']
             else []) @
            (if direction_of parameter_trends ''cyanobacteria_percentage'' = Some Increasing then
               [''Cyanobacteria dominance is increasing - high HAB risk, implement mitigation measures'']
             else []);
          recommendations =
            (if recommendations = [] then
               [''Continue regular monitoring and maintain current management practices'']
             else recommendations)
      in take 4 recommendations)"

record trends =
  years_of_trends :: "int list"
  parameters :: "(string \<times> trend_stats) list"
  overall_trajectory :: "string option"
  key_findings :: "finding list"
  recommendations_of :: "string list"

definition analyze_parameter_trends :: "linregress \<Rightarrow> report list \<Rightarrow> py_error + trends" where
  "analyze_parameter_trends linregress reports =
     (let years = years_of reports in
      if length years < minimum_reports_for_trends then
        Inr \<lparr> years_of_trends = years, parameters = [],
              overall_trajectory = Some ''Insufficient data for trend analysis'',
              key_findings = [], recommendations_of = [] \<rparr>
      else
        (case track_parameters linregress years reports parameters_to_track [] of
           Inl e \<Rightarrow> Inl e
         | Inr params \<Rightarrow>
             Inr \<lparr> years_of_trends = years, parameters = params,
                   overall_trajectory = Some (determine_overall_trajectory params),
                   key_findings = generate_key_findings params,
                   recommendations_of = generate_trend_recommendations params \<rparr>))"

record assessment =
  assessed_lake_name :: string
  reports_analyzed :: nat
  year_range :: "int \<times> int"
  trend_analysis :: trends
  individual_reports :: "report list"

text \<open>
  The loop of \<open>perform_assessment\<close> (lines 444 to 479) over the groups; \<open>assessments\<close> is the dictionary
  filled so far. The group names are distinct keys, so an entry is added at the end.
  \<open>year_range\<close> is the pair of \<open>min(years)\<close> and \<open>max(years)\<close> that the source formats
  into one string.
\<close>

fun assess_groups ::
  "linregress \<Rightarrow> (string \<times> report list) list \<Rightarrow> (string \<times> assessment) list
     \<Rightarrow> py_error + (string \<times> assessment) list" where
  "assess_groups linregress [] assessments = Inr assessments"
| "assess_groups linregress ((name, lake_reports) # rest) assessments =
     (let years = years_of lake_reports in
      if length (remdups years) \<ge> minimum_reports_for_trends then
        (case analyze_parameter_trends linregress lake_reports of
           Inl e \<Rightarrow> Inl e
         | Inr analysis \<Rightarrow>
             assess_groups linregress rest
               (assessments @
                [(name,
                  \<lparr> assessed_lake_name =
                      (case lake_name (hd lake_reports) of None \<Rightarrow> name | Some n \<Rightarrow> n),
                    reports_analyzed = length lake_reports,
                    year_range = (fold min (tl years) (hd years), fold max (tl years) (hd years)),
                    trend_analysis = analysis,
                    individual_reports = lake_reports \<rparr>)]))
      else assess_groups linregress rest assessments)"

definition perform_assessment ::
  "name_and_year \<Rightarrow> linregress \<Rightarrow> report list \<Rightarrow> py_error + (string \<times> assessment) list" where
  "perform_assessment extract_lake_name_and_year linregress reports =
     assess_groups linregress (group_reports_by_lake extract_lake_name_and_year reports) []"

text \<open>
  Five reports of one lake from two years, with no number in them to fit, and a
  regression that is never reached on them.
\<close>

definition report_of_year :: "int \<Rightarrow> report" where
  "report_of_year y =
     \<lparr> filename = ''Austin Lake report.pdf'', report_metrics = Map.empty,
       compliance_score = None, extracted_year = Some y, lake_name = Some ''Austin Lake'' \<rparr>"

definition two_year_group :: "report list" where
  "two_year_group = map report_of_year [2020, 2020, 2020, 2021, 2021]"

definition three_year_group :: "report list" where
  "three_year_group = map report_of_year [2019, 2020, 2021]"

definition two_reports :: "report list" where
  "two_reports = map report_of_year [2020, 2021]"

definition stated_name_and_year :: name_and_year where
  "stated_name_and_year r = (lake_name r, extracted_year r)"

definition linregress_raises :: linregress where
  "linregress_raises x y = Inl ValueError"

text \<open>
  A fit for the readings 5, 5.001, 5.002 of three years in a row: a slope of 0.001 that
  is significant.
\<close>

definition flat_fit :: linregress where
  "flat_fit x y = Inr (1 / 1000, - 2015 / 1000, 1, 1 / 10000, 0)"

definition steep_fit :: linregress where
  "steep_fit x y = Inr (1 / 2, 0, 1, 1 / 10000, 0)"

definition noisy_fit :: linregress where
  "noisy_fit x y = Inr (1 / 2, 0, 1 / 10, 1 / 2, 1)"


section \<open>src/core/compliance_engine.py: calculations and the score\<close>

text \<open>
  The rules are read from \<open>compliance_rules.json\<close>, which is configuration: the
  calculations they require and the scoring weights are parameters here.
\<close>

record calc_info =
  formula :: "string option"
  importance :: "string option"

record rules =
  critical_calculations :: "(string \<times> calc_info) list"
  scoring_weights :: "string \<rightharpoonup> real"

text \<open>An entry of \<open>calculations.found\<close> or \<open>calculations.missing\<close>.\<close>

record calc_entry =
  entry_name :: string
  entry_formula :: string
  entry_importance :: string
  entry_status :: "string option"

text \<open>
  The evaluation dictionary, with the entries that \<open>_evaluate_calculations\<close> and
  \<open>_calculate_score\<close> read or write.
\<close>

record evaluation =
  overall_score :: real
  compliance_percentage :: real
  calculations_found :: "calc_entry list"
  calculations_missing :: "calc_entry list"
  strengths :: "string list"
  weaknesses :: "string list"

text \<open>The dictionary as \<open>evaluate_document\<close> creates it.\<close>

definition new_evaluation :: evaluation where
  "new_evaluation =
     \<lparr> overall_score = 0, compliance_percentage = 0, calculations_found = [],
       calculations_missing = [], strengths = [], weaknesses = [] \<rparr>"

text \<open>\<open>d.get(key, default)\<close>\<close>

definition py_get :: "('k \<rightharpoonup> 'v) \<Rightarrow> 'k \<Rightarrow> 'v \<Rightarrow> 'v" where
  "py_get d k dflt = (case d k of None \<Rightarrow> dflt | Some v \<Rightarrow> v)"

text \<open>\<open>evaluation["overall_score"] += delta\<close>\<close>

definition add_score :: "real \<Rightarrow> evaluation \<Rightarrow> evaluation" where
  "add_score delta e = e \<lparr> overall_score := overall_score e + delta \<rparr>"

text \<open>\<open>calc_key.replace('_', ' ')\<close>\<close>

definition spaced :: "string \<Rightarrow> string" where
  "spaced s = map (\<lambda>c. if c = CHR ''_'' then CHR '' '' else c) s"

definition related_calcs :: "string \<rightharpoonup> string" where
  "related_calcs =
     map_of [(''hypoxic_water_volume'', ''hypoxic_percentage_volume''),
             (''hypoxic_sediment_area'', ''hypoxic_percentage_area'')]"

definition percentage_found :: "(string \<rightharpoonup> bool) \<Rightarrow> (string \<rightharpoonup> bool)" where
  "percentage_found params_found =
     map_of [(''hypoxic_percentage_volume'',
                py_get params_found ''calc_hypoxic_percentage_volume'' False),
             (''hypoxic_percentage_area'',
                py_get params_found ''calc_hypoxic_percentage_area'' False)]"

definition partial_status :: string where
  "partial_status = ''partial - percentage mentioned but actual values not calculated''"

text \<open>
  The body of the loop of \<open>_evaluate_calculations\<close> (compliance_engine.py, lines 836
  to 896), for one required calculation.
\<close>

definition evaluate_calculation ::
  "(string \<rightharpoonup> real) \<Rightarrow> (string \<rightharpoonup> bool) \<Rightarrow> string \<times> calc_info \<Rightarrow> evaluation \<Rightarrow> evaluation" where
  "evaluate_calculation weights params_found item e =
     (case item of (calc_key, info) \<Rightarrow>
        (let entry = \<lparr> entry_name = calc_key,
                       entry_formula = (case formula info of None \<Rightarrow> [] | Some f \<Rightarrow> f),
                       entry_importance = (case importance info of None \<Rightarrow> [] | Some i \<Rightarrow> i),
                       entry_status = None \<rparr>
         in if py_get params_found (''calc_'' @ calc_key) False then
              add_score (py_get weights ''critical_calculation_present'' 15)
                (e \<lparr> calculations_found := calculations_found e @ [entry],
                     strengths := strengths e @
                       [''Performs '' @ spaced calc_key @ '' calculation''] \<rparr>)
            else
              (case related_calcs calc_key of
                 Some related_key \<Rightarrow>
                   if py_get (percentage_found params_found) related_key False then
                     add_score (py_get weights ''critical_calculation_present'' 15 * (1 / 2))
                       (e \<lparr> calculations_found := calculations_found e @
                              [entry \<lparr> entry_status := Some partial_status \<rparr>] \<rparr>)
                   else
                     add_score (py_get weights ''critical_calculation_missing'' (- 15))
                       (e \<lparr> calculations_missing := calculations_missing e @ [entry],
                            weaknesses := weaknesses e @
                              [''Missing calculation: '' @ spaced calc_key] \<rparr>)
               | None \<Rightarrow>
                   add_score (py_get weights ''critical_calculation_missing'' (- 15))
                     (e \<lparr> calculations_missing := calculations_missing e @ [entry],
                          weaknesses := weaknesses e @
                            [''Missing calculation: '' @ spaced calc_key] \<rparr>))))"

definition evaluate_calculations :: "rules \<Rightarrow> (string \<rightharpoonup> bool) \<Rightarrow> evaluation \<Rightarrow> evaluation" where
  "evaluate_calculations rs params_found e =
     fold (evaluate_calculation (scoring_weights rs) params_found) (critical_calculations rs) e"

text \<open>\<open>_calculate_score\<close> (compliance_engine.py, lines 1065 to 1069).\<close>

definition calculate_score :: "evaluation \<Rightarrow> evaluation" where
  "calculate_score e =
     (let score = max 0 (min 100 (50 + overall_score e))
      in e \<lparr> overall_score := score, compliance_percentage := score \<rparr>)"

text \<open>
  The built-in weights of \<open>config.py\<close>, rules that require the four hypoxia
  calculations, and a document in which only the percentage of the volume is found.
\<close>

definition default_weights :: "string \<rightharpoonup> real" where
  "default_weights =
     map_of [(''critical_parameter_present'', 10), (''critical_parameter_missing'', - 10),
             (''critical_calculation_present'', 15), (''critical_calculation_missing'', - 15),
             (''problematic_parameter_present'', - 5)]"

definition no_info :: calc_info where
  "no_info = \<lparr> formula = None, importance = None \<rparr>"

definition hypoxia_rules :: rules where
  "hypoxia_rules =
     \<lparr> critical_calculations =
         [(''hypoxic_water_volume'', no_info), (''hypoxic_percentage_volume'', no_info)],
       scoring_weights = default_weights \<rparr>"

definition percentage_only :: "string \<rightharpoonup> bool" where
  "percentage_only =
     map_of [(''calc_hypoxic_water_volume'', False), (''calc_hypoxic_percentage_volume'', True)]"


section \<open>Properties of the derivation\<close>

lemma extract_hypso_flag:
  "can_calculate_hypoxic_volume (extract_hypsographic_data f t) =
     (has_hypsographic_table (extract_hypsographic_data f t) \<or>
      (total_volume (extract_hypsographic_data f t) \<noteq> None \<and>
       max_depth (extract_hypsographic_data f t) \<noteq> None))"
  by (simp add: extract_hypsographic_data_def Let_def split: list.splits option.splits)

lemma calc_hypoxic_volume_computed:
  assumes "can_calculate_hypoxic_volume h" "oxycline_depth d = Some oxy"
    "total_volume h = Some tv" "tv \<noteq> 0" "max_depth h = Some md" "md \<noteq> 0"
    "\<not> float_overflow (((md - oxy) / md) ^ 2)"
  shows "calc_hypoxic_volume d h m =
     Inr (m \<lparr> hypoxic_water_volume := Some (tv * ((md - oxy) / md) ^ 2),
              hypoxic_volume_percentage := Some (((md - oxy) / md) ^ 2 * 100),
              calculation_notes := calculation_notes m @ [HypoxicVolumeEstimated oxy tv] \<rparr>)"
  using assms by (simp add: calc_hypoxic_volume_def truthy_def py_div_def py_square_def)

lemma calc_hypoxic_volume_overflow:
  assumes "can_calculate_hypoxic_volume h" "oxycline_depth d = Some oxy"
    "total_volume h = Some tv" "tv \<noteq> 0" "max_depth h = Some md" "md \<noteq> 0"
    "float_overflow (((md - oxy) / md) ^ 2)"
  shows "calc_hypoxic_volume d h m = Inl OverflowError"
  using assms by (simp add: calc_hypoxic_volume_def truthy_def py_div_def py_square_def)

lemma threshold_above_one: "(1::real) < 2 ^ 1024 - 2 ^ 970"
proof -
  have low: "(1::real) \<le> 2 ^ 970" by (rule one_le_power) simp
  have split: "(2::real) ^ 1024 = 2 ^ 970 * 2 ^ 54"
    by (simp only: power_add [symmetric]) simp
  have "(2::real) ^ 54 = 2 ^ 2 * 2 ^ 52" by (simp only: power_add [symmetric]) simp
  moreover have "(1::real) \<le> 2 ^ 52" by (rule one_le_power) simp
  ultimately have two: "(2::real) \<le> 2 ^ 54 - 1" by simp
  have "(2::real) ^ 1024 - 2 ^ 970 = 2 ^ 970 * (2 ^ 54 - 1)"
    by (simp only: split right_diff_distrib mult_1_right)
  moreover have "(1::real) * 2 \<le> 2 ^ 970 * (2 ^ 54 - 1)"
    by (rule mult_mono [OF low two]) simp_all
  ultimately show ?thesis by simp
qed

lemma small_is_no_overflow: "\<bar>x\<bar> \<le> 1 \<Longrightarrow> \<not> float_overflow x"
  using threshold_above_one by (simp add: float_overflow_def)

lemma calc_hypoxic_volume_skipped:
  assumes "\<not> can_calculate_hypoxic_volume h \<or> oxycline_depth d = None \<or>
           \<not> truthy (total_volume h) \<or> \<not> truthy (max_depth h)"
  shows "calc_hypoxic_volume d h m = Inr m"
  using assms by (cases "oxycline_depth d") (auto simp add: calc_hypoxic_volume_def)

lemma sediment_area_keeps_volume:
  "hypoxic_water_volume (calc_hypoxic_sediment_area h m) = hypoxic_water_volume m"
  "hypoxic_volume_percentage (calc_hypoxic_sediment_area h m) = hypoxic_volume_percentage m"
  by (simp_all add: calc_hypoxic_sediment_area_def Let_def)

lemma biomass_keeps_volume:
  "hypoxic_water_volume (calc_biomass_potential n m) = hypoxic_water_volume m"
  "hypoxic_volume_percentage (calc_biomass_potential n m) = hypoxic_volume_percentage m"
  "hypoxic_sediment_area (calc_biomass_potential n m) = hypoxic_sediment_area m"
  "hypoxic_area_percentage (calc_biomass_potential n m) = hypoxic_area_percentage m"
  by (simp_all add: calc_biomass_potential_def Let_def)

text \<open>
  Claim C1, as the code has it. For a data set of the extractor in which the total
  volume, the maximum depth and the oxycline depth are all there, both the maximum
  depth and the total volume are not zero, and the square of the depth fraction is in
  the range of a float, the derivation computes
  \<open>depth_fraction = (max_depth - oxycline_depth) / max_depth\<close>, its square as the volume
  fraction, \<open>hypoxic_water_volume = total_volume * volume_fraction\<close> and
  \<open>hypoxic_volume_percentage = volume_fraction * 100\<close>. If any of the three inputs is
  null, both fields are left null.
\<close>

theorem hypoxic_volume_formula:
  assumes "h = extract_hypsographic_data re_findall text"
  shows "(total_volume h = Some tv \<and> tv \<noteq> 0 \<and> max_depth h = Some md \<and> md \<noteq> 0 \<and>
          oxycline_depth d = Some oxy \<and> \<not> float_overflow (((md - oxy) / md) ^ 2) \<longrightarrow>
            (\<exists>m. perform_calculations d n h = Inr m \<and>
                 hypoxic_water_volume m = Some (tv * ((md - oxy) / md) ^ 2) \<and>
                 hypoxic_volume_percentage m = Some (((md - oxy) / md) ^ 2 * 100))) \<and>
         (total_volume h = None \<or> max_depth h = None \<or> oxycline_depth d = None \<longrightarrow>
            (\<exists>m. perform_calculations d n h = Inr m \<and>
                 hypoxic_water_volume m = None \<and> hypoxic_volume_percentage m = None))"
proof (intro conjI impI)
  assume a: "total_volume h = Some tv \<and> tv \<noteq> 0 \<and> max_depth h = Some md \<and> md \<noteq> 0 \<and>
          oxycline_depth d = Some oxy \<and> \<not> float_overflow (((md - oxy) / md) ^ 2)"
  have c: "can_calculate_hypoxic_volume h"
    using a extract_hypso_flag[of re_findall "text"] assms by simp
  have "calc_hypoxic_volume d h new_CalculatedMetrics =
     Inr (new_CalculatedMetrics \<lparr> hypoxic_water_volume := Some (tv * ((md - oxy) / md) ^ 2),
              hypoxic_volume_percentage := Some (((md - oxy) / md) ^ 2 * 100),
              calculation_notes := calculation_notes new_CalculatedMetrics @ [HypoxicVolumeEstimated oxy tv] \<rparr>)"
    using a c by (intro calc_hypoxic_volume_computed) simp_all
  then show "\<exists>m. perform_calculations d n h = Inr m \<and>
                 hypoxic_water_volume m = Some (tv * ((md - oxy) / md) ^ 2) \<and>
                 hypoxic_volume_percentage m = Some (((md - oxy) / md) ^ 2 * 100)"
    by (simp add: perform_calculations_def sediment_area_keeps_volume biomass_keeps_volume)
next
  assume a: "total_volume h = None \<or> max_depth h = None \<or> oxycline_depth d = None"
  have "calc_hypoxic_volume d h new_CalculatedMetrics = Inr new_CalculatedMetrics"
    using a by (intro calc_hypoxic_volume_skipped) (auto simp: truthy_def)
  then show "\<exists>m. perform_calculations d n h = Inr m \<and>
                 hypoxic_water_volume m = None \<and> hypoxic_volume_percentage m = None"
    by (simp add: perform_calculations_def sediment_area_keeps_volume biomass_keeps_volume
        new_CalculatedMetrics_def)
qed


lemma morphometry_no_table:
  "list_ex (\<lambda>ind. py_in ind morphometry_text) hypso_indicators = False"
  "list_ex (\<lambda>ind. py_in ind morphometry_text) bathy_indicators = False"
  "list_ex (\<lambda>ind. py_in ind zero_volume_text) hypso_indicators = False"
  "list_ex (\<lambda>ind. py_in ind zero_volume_text) bathy_indicators = False"
  by code_simp+

lemma morphometry_extracted:
  "extract_hypsographic_data morphometry_findall morphometry_text =
   \<lparr> has_hypsographic_table = False, has_bathymetry_map = False, max_depth = Some 20,
       total_volume = Some 100000, total_surface_area = None,
       can_calculate_hypoxic_volume = True \<rparr>"
  by (simp add: extract_hypsographic_data_def Let_def new_HypsographicData_def
    volume_patterns_def area_patterns_def morphometry_no_table)

lemma zero_volume_extracted:
  "extract_hypsographic_data zero_volume_findall zero_volume_text =
   \<lparr> has_hypsographic_table = False, has_bathymetry_map = False, max_depth = Some 20,
       total_volume = Some 0, total_surface_area = None,
       can_calculate_hypoxic_volume = True \<rparr>"
  by (simp add: extract_hypsographic_data_def Let_def new_HypsographicData_def
    volume_patterns_def area_patterns_def morphometry_no_table)

text \<open>
  With a maximum depth of 20, an oxycline at 12 and a volume of 100000 the hypoxic
  volume is 16000 and 16 percent; without an oxycline both fields are null.
\<close>

theorem hypoxic_volume_formula_witness:
  "(\<exists>m. perform_calculations (oxycline_at 12) new_ExtractedNutrientData
        (extract_hypsographic_data morphometry_findall morphometry_text) = Inr m \<and>
      hypoxic_water_volume m = Some 16000 \<and> hypoxic_volume_percentage m = Some 16) \<and>
   (\<exists>m. perform_calculations new_ExtractedDOData new_ExtractedNutrientData
        (extract_hypsographic_data morphometry_findall morphometry_text) = Inr m \<and>
      hypoxic_water_volume m = None \<and> hypoxic_volume_percentage m = None)"
proof -
  have "\<not> float_overflow (((20 - 12) / 20) ^ 2)"
    by (rule small_is_no_overflow) (simp add: power2_eq_square)
  then show ?thesis
    using hypoxic_volume_formula [OF refl, of morphometry_findall morphometry_text 100000 20
        "oxycline_at 12" 12 new_ExtractedNutrientData]
      hypoxic_volume_formula [OF refl, of morphometry_findall morphometry_text 100000 20
        new_ExtractedDOData 12 new_ExtractedNutrientData]
    by (simp add: morphometry_extracted oxycline_at_def new_ExtractedDOData_def
        power2_eq_square)
qed

lemma zero_volume_skipped:
  "calc_hypoxic_volume (oxycline_at 12)
     (extract_hypsographic_data zero_volume_findall zero_volume_text) new_CalculatedMetrics =
   Inr new_CalculatedMetrics"
  by (rule calc_hypoxic_volume_skipped) (simp add: zero_volume_extracted truthy_def)

lemma nothing_derived:
  "calc_biomass_potential new_ExtractedNutrientData
     (calc_hypoxic_sediment_area h new_CalculatedMetrics) = new_CalculatedMetrics"
  by (simp add: calc_hypoxic_sediment_area_def calc_biomass_potential_def truthy_def
      new_CalculatedMetrics_def new_ExtractedNutrientData_def)

text \<open>
  Claim C1 as stated asks for a maximum depth that is not zero only. With a total volume
  of zero, which is not null, the guard of the first block is false and both fields stay
  null, where the formulas would give 0 and 16.
\<close>

theorem hypoxic_volume_zero_total_volume_counterexample:
  "total_volume (extract_hypsographic_data zero_volume_findall zero_volume_text) = Some 0 \<and>
   max_depth (extract_hypsographic_data zero_volume_findall zero_volume_text) = Some 20 \<and>
   oxycline_depth (oxycline_at 12) = Some 12 \<and>
   perform_calculations (oxycline_at 12) new_ExtractedNutrientData
        (extract_hypsographic_data zero_volume_findall zero_volume_text) = Inr new_CalculatedMetrics \<and>
   hypoxic_water_volume new_CalculatedMetrics \<noteq> Some (0 * ((20 - 12) / 20) ^ 2) \<and>
   hypoxic_volume_percentage new_CalculatedMetrics \<noteq> Some (((20 - 12) / 20) ^ 2 * 100)"
proof -
  have "perform_calculations (oxycline_at 12) new_ExtractedNutrientData
        (extract_hypsographic_data zero_volume_findall zero_volume_text) = Inr new_CalculatedMetrics"
    by (simp add: perform_calculations_def zero_volume_skipped nothing_derived)
  then show ?thesis
    by (simp add: zero_volume_extracted oxycline_at_def new_ExtractedDOData_def
        new_CalculatedMetrics_def)
qed


lemma biomass_computed:
  assumes "hypoxic_water_volume m = Some v" "v \<noteq> 0" "hypolimnion_srp n = Some s" "s \<noteq> 0"
  shows "calc_biomass_potential n m =
     m \<lparr> phytoplankton_biomass_potential := Some (v * s / 1000 * 100),
         biomass_potential_tonnes := Some (v * s / 1000 * 100 / 1000),
         calculation_notes := calculation_notes m @
           [BiomassPotentialNote (v * s / 1000 * 100 / 1000) (v * s / 1000)] \<rparr>"
  using assms by (simp add: calc_biomass_potential_def truthy_def Let_def)

lemma biomass_srp_only:
  assumes "truthy (hypolimnion_srp n)" "\<not> truthy (hypoxic_water_volume m)"
  shows "calc_biomass_potential n m =
     m \<lparr> calculation_notes := calculation_notes m @ [SrpButVolumeUnknown] \<rparr>"
  using assms by (simp add: calc_biomass_potential_def)

lemma biomass_volume_only:
  assumes "\<not> truthy (hypolimnion_srp n)" "truthy (hypoxic_water_volume m)"
  shows "calc_biomass_potential n m =
     m \<lparr> calculation_notes := calculation_notes m @ [VolumeButNoSrp] \<rparr>"
  using assms by (simp add: calc_biomass_potential_def)


lemma sediment_area_keeps_biomass:
  "phytoplankton_biomass_potential (calc_hypoxic_sediment_area h m) = phytoplankton_biomass_potential m"
  "biomass_potential_tonnes (calc_hypoxic_sediment_area h m) = biomass_potential_tonnes m"
  by (simp_all add: calc_hypoxic_sediment_area_def Let_def)

lemma calc_hypoxic_volume_keeps_biomass:
  assumes "calc_hypoxic_volume d h m = Inr m'"
  shows "phytoplankton_biomass_potential m' = phytoplankton_biomass_potential m \<and>
         biomass_potential_tonnes m' = biomass_potential_tonnes m \<and>
         hypoxic_sediment_area m' = hypoxic_sediment_area m \<and>
         hypoxic_area_percentage m' = hypoxic_area_percentage m"
  using assms
  by (cases "oxycline_depth d")
     (auto simp add: calc_hypoxic_volume_def py_div_def py_square_def split: if_splits)

lemma perform_calculations_stages:
  assumes "perform_calculations d n h = Inr m"
  obtains m1 where "calc_hypoxic_volume d h new_CalculatedMetrics = Inr m1"
    and "m = calc_biomass_potential n (calc_hypoxic_sediment_area h m1)"
  using assms by (auto simp add: perform_calculations_def split: sum.splits)

text \<open>
  Claim C2, as the code has it. The tests of the third block are truth values, so a
  value counts when it is not null and not zero. When the hypoxic volume and the SRP of
  the hypolimnion both count, \<open>total_p_kg = hypoxic_water_volume * srp / 1000\<close>, the
  biomass potential is \<open>total_p_kg * 100\<close> kg and that over 1000 in tonnes, and the note
  of the computation is appended. When exactly one of the two counts, the biomass
  fields stay null and the note that names the missing half is appended.
\<close>

theorem biomass_potential_formula:
  assumes "perform_calculations d n h = Inr m"
  shows "(hypoxic_water_volume m = Some v \<and> v \<noteq> 0 \<and> hypolimnion_srp n = Some s \<and> s \<noteq> 0 \<longrightarrow>
            phytoplankton_biomass_potential m = Some (v * s / 1000 * 100) \<and>
            biomass_potential_tonnes m = Some (v * s / 1000 * 100 / 1000) \<and>
            (\<exists>notes. calculation_notes m =
                notes @ [BiomassPotentialNote (v * s / 1000 * 100 / 1000) (v * s / 1000)])) \<and>
         (truthy (hypolimnion_srp n) \<and> \<not> truthy (hypoxic_water_volume m) \<longrightarrow>
            phytoplankton_biomass_potential m = None \<and> biomass_potential_tonnes m = None \<and>
            (\<exists>notes. calculation_notes m = notes @ [SrpButVolumeUnknown])) \<and>
         (truthy (hypoxic_water_volume m) \<and> \<not> truthy (hypolimnion_srp n) \<longrightarrow>
            phytoplankton_biomass_potential m = None \<and> biomass_potential_tonnes m = None \<and>
            (\<exists>notes. calculation_notes m = notes @ [VolumeButNoSrp]))"
proof -
  from assms obtain m1 where
    m1: "calc_hypoxic_volume d h new_CalculatedMetrics = Inr m1" and
    m: "m = calc_biomass_potential n (calc_hypoxic_sediment_area h m1)"
    by (rule perform_calculations_stages)
  define m2 where "m2 = calc_hypoxic_sediment_area h m1"
  have vol: "hypoxic_water_volume m2 = hypoxic_water_volume m"
    by (simp add: m m2_def biomass_keeps_volume)
  have none: "phytoplankton_biomass_potential m2 = None" "biomass_potential_tonnes m2 = None"
    using calc_hypoxic_volume_keeps_biomass [OF m1]
    by (simp_all add: m2_def sediment_area_keeps_biomass new_CalculatedMetrics_def)
  have m': "m = calc_biomass_potential n m2" by (simp add: m m2_def)
  show ?thesis
  proof (intro conjI impI)
    assume a: "hypoxic_water_volume m = Some v \<and> v \<noteq> 0 \<and> hypolimnion_srp n = Some s \<and> s \<noteq> 0"
    have e: "calc_biomass_potential n m2 =
       m2 \<lparr> phytoplankton_biomass_potential := Some (v * s / 1000 * 100),
         biomass_potential_tonnes := Some (v * s / 1000 * 100 / 1000),
         calculation_notes := calculation_notes m2 @
           [BiomassPotentialNote (v * s / 1000 * 100 / 1000) (v * s / 1000)] \<rparr>"
      using a vol by (intro biomass_computed) simp_all
    show "phytoplankton_biomass_potential m = Some (v * s / 1000 * 100)"
      "biomass_potential_tonnes m = Some (v * s / 1000 * 100 / 1000)"
      "\<exists>notes. calculation_notes m =
                notes @ [BiomassPotentialNote (v * s / 1000 * 100 / 1000) (v * s / 1000)]"
      by (simp_all add: m' e)
  next
    assume a: "truthy (hypolimnion_srp n) \<and> \<not> truthy (hypoxic_water_volume m)"
    have e: "calc_biomass_potential n m2 =
       m2 \<lparr> calculation_notes := calculation_notes m2 @ [SrpButVolumeUnknown] \<rparr>"
      using a vol by (intro biomass_srp_only) simp_all
    show "phytoplankton_biomass_potential m = None"
      "biomass_potential_tonnes m = None"
      "\<exists>notes. calculation_notes m = notes @ [SrpButVolumeUnknown]"
      by (simp_all add: m' e none)
  next
    assume a: "truthy (hypoxic_water_volume m) \<and> \<not> truthy (hypolimnion_srp n)"
    have e: "calc_biomass_potential n m2 =
       m2 \<lparr> calculation_notes := calculation_notes m2 @ [VolumeButNoSrp] \<rparr>"
      using a vol by (intro biomass_volume_only) simp_all
    show "phytoplankton_biomass_potential m = None"
      "biomass_potential_tonnes m = None"
      "\<exists>notes. calculation_notes m = notes @ [VolumeButNoSrp]"
      by (simp_all add: m' e none)
  qed
qed



lemma sediment_area_skipped:
  assumes "\<not> truthy (hypoxic_volume_percentage m) \<or> \<not> truthy (total_surface_area h)"
  shows "calc_hypoxic_sediment_area h m = m"
  using assms by (auto simp add: calc_hypoxic_sediment_area_def)


lemma srp_of_srp: "hypolimnion_srp (srp_of s) = Some s"
  by (simp add: srp_of_def new_ExtractedNutrientData_def)

lemma bottom_oxycline_volume:
  "calc_hypoxic_volume (oxycline_at 20)
     (extract_hypsographic_data morphometry_findall morphometry_text) new_CalculatedMetrics =
   Inr \<lparr> hypoxic_water_volume = Some 0, hypoxic_volume_percentage = Some 0,
         hypoxic_sediment_area = None, hypoxic_area_percentage = None,
         phytoplankton_biomass_potential = None, biomass_potential_tonnes = None,
         calculation_notes = [HypoxicVolumeEstimated 20 100000] \<rparr>"
proof -
  have "\<not> float_overflow (((20 - 20) / 20) ^ 2)"
    by (rule small_is_no_overflow) simp
  then show ?thesis
    using calc_hypoxic_volume_computed
      [of "extract_hypsographic_data morphometry_findall morphometry_text" "oxycline_at 20"
          20 100000 20 new_CalculatedMetrics]
    by (simp add: morphometry_extracted oxycline_at_def new_ExtractedDOData_def
        new_CalculatedMetrics_def)
qed

lemma mid_oxycline_volume:
  "calc_hypoxic_volume (oxycline_at 12)
     (extract_hypsographic_data morphometry_findall morphometry_text) new_CalculatedMetrics =
   Inr \<lparr> hypoxic_water_volume = Some 16000, hypoxic_volume_percentage = Some 16,
         hypoxic_sediment_area = None, hypoxic_area_percentage = None,
         phytoplankton_biomass_potential = None, biomass_potential_tonnes = None,
         calculation_notes = [HypoxicVolumeEstimated 12 100000] \<rparr>"
proof -
  have "\<not> float_overflow (((20 - 12) / 20) ^ 2)"
    by (rule small_is_no_overflow) (simp add: power2_eq_square)
  then show ?thesis
    using calc_hypoxic_volume_computed
      [of "extract_hypsographic_data morphometry_findall morphometry_text" "oxycline_at 12"
          12 100000 20 new_CalculatedMetrics]
    by (simp add: morphometry_extracted oxycline_at_def new_ExtractedDOData_def
        new_CalculatedMetrics_def power2_eq_square)
qed

lemma no_surface_area:
  "calc_hypoxic_sediment_area
     (extract_hypsographic_data morphometry_findall morphometry_text) m = m"
  by (rule sediment_area_skipped) (simp add: morphometry_extracted truthy_def)

lemma bottom_oxycline_with_srp:
  "perform_calculations (oxycline_at 20) (srp_of (1 / 10))
     (extract_hypsographic_data morphometry_findall morphometry_text) =
   Inr \<lparr> hypoxic_water_volume = Some 0, hypoxic_volume_percentage = Some 0,
         hypoxic_sediment_area = None, hypoxic_area_percentage = None,
         phytoplankton_biomass_potential = None, biomass_potential_tonnes = None,
         calculation_notes = [HypoxicVolumeEstimated 20 100000, SrpButVolumeUnknown] \<rparr>"
  by (simp add: perform_calculations_def bottom_oxycline_volume no_surface_area
      calc_biomass_potential_def truthy_def srp_of_def new_ExtractedNutrientData_def)


lemma mid_oxycline_with_srp:
  "perform_calculations (oxycline_at 12) (srp_of (1 / 10))
     (extract_hypsographic_data morphometry_findall morphometry_text) =
   Inr \<lparr> hypoxic_water_volume = Some 16000, hypoxic_volume_percentage = Some 16,
         hypoxic_sediment_area = None, hypoxic_area_percentage = None,
         phytoplankton_biomass_potential = Some 160, biomass_potential_tonnes = Some (16 / 100),
         calculation_notes = [HypoxicVolumeEstimated 12 100000,
                              BiomassPotentialNote (16 / 100) (16 / 10)] \<rparr>"
  by (simp add: perform_calculations_def mid_oxycline_volume no_surface_area
      calc_biomass_potential_def truthy_def srp_of_def new_ExtractedNutrientData_def Let_def)

lemma mid_oxycline_without_srp:
  "perform_calculations (oxycline_at 12) new_ExtractedNutrientData
     (extract_hypsographic_data morphometry_findall morphometry_text) =
   Inr \<lparr> hypoxic_water_volume = Some 16000, hypoxic_volume_percentage = Some 16,
         hypoxic_sediment_area = None, hypoxic_area_percentage = None,
         phytoplankton_biomass_potential = None, biomass_potential_tonnes = None,
         calculation_notes = [HypoxicVolumeEstimated 12 100000, VolumeButNoSrp] \<rparr>"
  by (simp add: perform_calculations_def mid_oxycline_volume no_surface_area
      calc_biomass_potential_def truthy_def new_ExtractedNutrientData_def)

text \<open>
  A hypoxic volume of 16000 with an SRP of 0.1 gives 1.6 kg of phosphorus, 160 kg and
  0.16 tonnes of biomass; the two notes for one missing half.
\<close>

theorem biomass_potential_formula_witness:
  "phytoplankton_biomass_potential
     \<lparr> hypoxic_water_volume = Some 16000, hypoxic_volume_percentage = Some 16,
       hypoxic_sediment_area = None, hypoxic_area_percentage = None,
       phytoplankton_biomass_potential = Some 160, biomass_potential_tonnes = Some (16 / 100),
       calculation_notes = [HypoxicVolumeEstimated 12 100000,
                            BiomassPotentialNote (16 / 100) (16 / 10)] \<rparr>
     = Some (16000 * (1 / 10) / 1000 * 100) \<and>
   biomass_potential_tonnes
     \<lparr> hypoxic_water_volume = Some 16000, hypoxic_volume_percentage = Some 16,
       hypoxic_sediment_area = None, hypoxic_area_percentage = None,
       phytoplankton_biomass_potential = Some 160, biomass_potential_tonnes = Some (16 / 100),
       calculation_notes = [HypoxicVolumeEstimated 12 100000,
                            BiomassPotentialNote (16 / 100) (16 / 10)] \<rparr>
     = Some (16 / 100) \<and>
   (\<exists>notes. [HypoxicVolumeEstimated 20 100000, SrpButVolumeUnknown] =
             notes @ [SrpButVolumeUnknown]) \<and>
   (\<exists>notes. [HypoxicVolumeEstimated 12 100000, VolumeButNoSrp] = notes @ [VolumeButNoSrp])"
  using biomass_potential_formula [OF mid_oxycline_with_srp, of 16000 "1 / 10"]
    biomass_potential_formula [OF bottom_oxycline_with_srp, of 0 "1 / 10"]
    biomass_potential_formula [OF mid_oxycline_without_srp, of 16000 0]
  by (simp add: truthy_def srp_of_def new_ExtractedNutrientData_def)

text \<open>
  Claim C2 as stated takes a value that is there for usable. With the oxycline at the
  maximum depth the hypoxic volume is computed as 0; with an SRP of 0.1 both inputs are
  there, and the biomass potential stays null where the formula gives 0.
\<close>

theorem biomass_zero_volume_counterexample:
  "perform_calculations (oxycline_at 20) (srp_of (1 / 10))
     (extract_hypsographic_data morphometry_findall morphometry_text) =
   Inr \<lparr> hypoxic_water_volume = Some 0, hypoxic_volume_percentage = Some 0,
         hypoxic_sediment_area = None, hypoxic_area_percentage = None,
         phytoplankton_biomass_potential = None, biomass_potential_tonnes = None,
         calculation_notes = [HypoxicVolumeEstimated 20 100000, SrpButVolumeUnknown] \<rparr> \<and>
   hypolimnion_srp (srp_of (1 / 10)) = Some (1 / 10) \<and>
   (None :: real option) \<noteq> Some (0 * (1 / 10) / 1000 * 100)"
  by (simp add: bottom_oxycline_with_srp srp_of_srp)




section \<open>Properties of the dissolved-oxygen extraction\<close>

lemma calc_oxycline_depth_fields:
  "do_values (calc_oxycline_depth data) = do_values data"
  "depths_measured (calc_oxycline_depth data) = depths_measured data"
  "minimum_do (calc_oxycline_depth data) = minimum_do data"
  by (simp_all add: calc_oxycline_depth_def split: option.splits)

lemma calc_oxycline_depth_result:
  "oxycline_depth data = None \<Longrightarrow>
   oxycline_depth (calc_oxycline_depth data) =
     (if do_values data \<noteq> [] \<and> depths_measured data \<noteq> [] \<and>
         length (do_values data) = length (depths_measured data)
      then oxycline_loop (do_values data) (depths_measured data) 0 else None)"
  by (simp add: calc_oxycline_depth_def split: option.splits)

lemma text_checks_fields:
  "do_values (check_summer_months t data) = do_values data"
  "depths_measured (check_summer_months t data) = depths_measured data"
  "minimum_do (check_summer_months t data) = minimum_do data"
  "oxycline_depth (check_summer_months t data) = oxycline_depth data"
  "do_values (check_measurement_frequency t data) = do_values data"
  "depths_measured (check_measurement_frequency t data) = depths_measured data"
  "minimum_do (check_measurement_frequency t data) = minimum_do data"
  "oxycline_depth (check_measurement_frequency t data) = oxycline_depth data"
  "do_values (check_measured_to_bottom t data) = do_values data"
  "depths_measured (check_measured_to_bottom t data) = depths_measured data"
  "minimum_do (check_measured_to_bottom t data) = minimum_do data"
  "oxycline_depth (check_measured_to_bottom t data) = oxycline_depth data"
  by (simp_all add: check_summer_months_def check_measurement_frequency_def
      check_measured_to_bottom_def)

lemma extract_depths_fields:
  "do_values (extract_depths f t data) = do_values data"
  "depths_measured (extract_depths f t data) =
     depths_measured data @ findall_each f depth_patterns t"
  "minimum_do (extract_depths f t data) = minimum_do data"
  "oxycline_depth (extract_depths f t data) = oxycline_depth data"
  by (simp_all add: extract_depths_def)

lemma check_do_measurements_fields:
  "do_values (check_do_measurements f t m new_ExtractedDOData) =
     (if findall_each f do_patterns t \<noteq> []
      then findall_each f do_patterns t
      else (case m ''dissolved_oxygen_values'' of None \<Rightarrow> [] | Some vs \<Rightarrow> vs))"
  "depths_measured (check_do_measurements f t m new_ExtractedDOData) = []"
  "oxycline_depth (check_do_measurements f t m new_ExtractedDOData) = None"
  "minimum_do (check_do_measurements f t m new_ExtractedDOData) =
     (case do_values (check_do_measurements f t m new_ExtractedDOData) of
        [] \<Rightarrow> None | v # vs \<Rightarrow> Some (fold min vs v))"
  by (simp_all add: check_do_measurements_def Let_def new_ExtractedDOData_def
      split: list.splits option.splits)

lemma extract_do_data_do_values:
  "do_values (extract_do_data re_findall text metrics) =
     (if findall_each re_findall do_patterns text \<noteq> []
      then findall_each re_findall do_patterns text
      else (case metrics ''dissolved_oxygen_values'' of None \<Rightarrow> [] | Some vs \<Rightarrow> vs))"
  by (simp only: extract_do_data_def calc_oxycline_depth_fields text_checks_fields
      extract_depths_fields check_do_measurements_fields)

lemma extract_do_data_depths:
  "depths_measured (extract_do_data re_findall text metrics) =
     findall_each re_findall depth_patterns text"
  by (simp only: extract_do_data_def calc_oxycline_depth_fields text_checks_fields
      extract_depths_fields check_do_measurements_fields append_Nil)

lemma extract_do_data_minimum:
  "minimum_do (extract_do_data re_findall text metrics) =
     (case do_values (extract_do_data re_findall text metrics) of
        [] \<Rightarrow> None | v # vs \<Rightarrow> Some (fold min vs v))"
  by (simp only: extract_do_data_def calc_oxycline_depth_fields text_checks_fields
      extract_depths_fields check_do_measurements_fields)

lemma extract_do_data_oxycline:
  "oxycline_depth (extract_do_data re_findall text metrics) =
     (if do_values (extract_do_data re_findall text metrics) \<noteq> [] \<and>
         depths_measured (extract_do_data re_findall text metrics) \<noteq> [] \<and>
         length (do_values (extract_do_data re_findall text metrics)) =
         length (depths_measured (extract_do_data re_findall text metrics))
      then oxycline_loop (do_values (extract_do_data re_findall text metrics))
             (depths_measured (extract_do_data re_findall text metrics)) 0
      else None)"
proof -
  define data where "data = check_summer_months text
         (check_measurement_frequency text
           (check_measured_to_bottom text
             (extract_depths re_findall text
               (check_do_measurements re_findall text metrics new_ExtractedDOData))))"
  have r: "extract_do_data re_findall text metrics = calc_oxycline_depth data"
    by (simp only: extract_do_data_def data_def)
  have "oxycline_depth data = None"
    by (simp only: data_def text_checks_fields extract_depths_fields check_do_measurements_fields)
  then show ?thesis
    unfolding r by (simp only: calc_oxycline_depth_result calc_oxycline_depth_fields)
qed


lemma oxycline_loop_none:
  "(\<forall>v \<in> set vs. \<not> v < 5 / 2) \<Longrightarrow> oxycline_loop vs depths k = None"
  by (induction vs arbitrary: k) simp_all

lemma oxycline_loop_first:
  "i < length vs \<Longrightarrow> vs ! i < 5 / 2 \<Longrightarrow> (\<forall>j < i. \<not> vs ! j < 5 / 2) \<Longrightarrow>
   oxycline_loop vs depths k = Some (depths ! (k + i))"
proof (induction vs arbitrary: i k)
  case Nil
  then show ?case by simp
next
  case (Cons v vs)
  show ?case
  proof (cases i)
    case 0
    with Cons.prems show ?thesis by simp
  next
    case (Suc i')
    from Cons.prems Suc have "\<not> v < 5 / 2" by auto
    moreover have "oxycline_loop vs depths (Suc k) = Some (depths ! (Suc k + i'))"
      using Cons.prems Suc by (intro Cons.IH) auto
    ultimately show ?thesis using Suc by simp
  qed
qed

text \<open>
  Claim C8. When the extracted DO values and depths are both non-empty and of equal
  length, the oxycline depth is the depth at the index of the first DO value, in the
  order of the array, that is strictly below 2.5 mg/L, and null when no value is below
  2.5; when the lengths differ, or one of the arrays is empty, it is null.
\<close>

theorem oxycline_depth_first_below:
  assumes "r = extract_do_data re_findall text metrics"
  shows "(do_values r \<noteq> [] \<and> depths_measured r \<noteq> [] \<and>
          length (do_values r) = length (depths_measured r) \<longrightarrow>
            (\<forall>i < length (do_values r).
               do_values r ! i < 5 / 2 \<and> (\<forall>j < i. \<not> do_values r ! j < 5 / 2) \<longrightarrow>
               oxycline_depth r = Some (depths_measured r ! i)) \<and>
            ((\<forall>v \<in> set (do_values r). \<not> v < 5 / 2) \<longrightarrow> oxycline_depth r = None)) \<and>
         (length (do_values r) \<noteq> length (depths_measured r) \<longrightarrow> oxycline_depth r = None) \<and>
         (do_values r = [] \<or> depths_measured r = [] \<longrightarrow> oxycline_depth r = None)"
proof -
  have ox: "oxycline_depth r =
     (if do_values r \<noteq> [] \<and> depths_measured r \<noteq> [] \<and>
         length (do_values r) = length (depths_measured r)
      then oxycline_loop (do_values r) (depths_measured r) 0 else None)"
    unfolding assms by (rule extract_do_data_oxycline)
  show ?thesis
  proof (intro conjI impI allI)
    fix i
    assume a: "do_values r \<noteq> [] \<and> depths_measured r \<noteq> [] \<and>
          length (do_values r) = length (depths_measured r)"
      and i: "i < length (do_values r)"
      and b: "do_values r ! i < 5 / 2 \<and> (\<forall>j < i. \<not> do_values r ! j < 5 / 2)"
    have "oxycline_loop (do_values r) (depths_measured r) 0 = Some (depths_measured r ! (0 + i))"
      using i b by (intro oxycline_loop_first) auto
    then show "oxycline_depth r = Some (depths_measured r ! i)"
      using a by (simp add: ox)
  next
    assume "\<forall>v \<in> set (do_values r). \<not> v < 5 / 2"
    then have "oxycline_loop (do_values r) (depths_measured r) 0 = None"
      by (rule oxycline_loop_none)
    then show "oxycline_depth r = None" by (simp add: ox)
  next
    assume "length (do_values r) \<noteq> length (depths_measured r)"
    then show "oxycline_depth r = None" by (simp add: ox)
  next
    assume "do_values r = [] \<or> depths_measured r = []"
    then show "oxycline_depth r = None" by (auto simp add: ox)
  qed
qed

lemma profile_lists:
  "findall_each profile_findall do_patterns profile_text = [17 / 2, 31 / 5, 6 / 5]"
  "findall_each profile_findall depth_patterns profile_text = [0, 5, 10]"
  by (simp_all add: findall_each_def do_patterns_def depth_patterns_def)

lemma profile_extracted:
  "do_values (extract_do_data profile_findall profile_text Map.empty) = [17 / 2, 31 / 5, 6 / 5]"
  "depths_measured (extract_do_data profile_findall profile_text Map.empty) = [0, 5, 10]"
  by (simp_all add: extract_do_data_do_values extract_do_data_depths profile_lists)

text \<open>
  DO values 8.5, 6.2, 1.2 at the depths 0, 5, 10: the oxycline depth is 10.
\<close>

theorem oxycline_depth_first_below_witness:
  "do_values (extract_do_data profile_findall profile_text Map.empty) = [17 / 2, 31 / 5, 6 / 5] \<and>
   depths_measured (extract_do_data profile_findall profile_text Map.empty) = [0, 5, 10] \<and>
   oxycline_depth (extract_do_data profile_findall profile_text Map.empty) = Some 10"
proof -
  let ?r = "extract_do_data profile_findall profile_text Map.empty"
  have dv: "do_values ?r = [17 / 2, 31 / 5, 6 / 5]" and ds: "depths_measured ?r = [0, 5, 10]"
    by (simp_all add: profile_extracted)
  have prem: "do_values ?r \<noteq> [] \<and> depths_measured ?r \<noteq> [] \<and>
      length (do_values ?r) = length (depths_measured ?r)"
    by (simp add: dv ds)
  have i: "2 < length (do_values ?r)" by (simp add: dv)
  have below: "do_values ?r ! 2 < 5 / 2 \<and> (\<forall>j < 2. \<not> do_values ?r ! j < 5 / 2)"
    unfolding dv by (simp add: less_Suc_eq numeral_2_eq_2)
  from oxycline_depth_first_below [OF refl, of profile_findall profile_text Map.empty] prem
  have "\<forall>i < length (do_values ?r).
          do_values ?r ! i < 5 / 2 \<and> (\<forall>j < i. \<not> do_values ?r ! j < 5 / 2) \<longrightarrow>
          oxycline_depth ?r = Some (depths_measured ?r ! i)"
    by blast
  with i below have "oxycline_depth ?r = Some (depths_measured ?r ! 2)" by blast
  then show ?thesis by (simp add: dv ds)
qed

lemma fold_min_is_Min: "fold min vs v = Min (set (v # vs))"
  by (simp only: Min.set_eq_fold)

text \<open>
  Claim C7, as the code has it. \<open>do_values or metrics.get(...)\<close> takes the second
  source only when the first is empty: when the patterns match at least one value in
  the text, the extracted DO values are these matches alone, whatever the metrics hold;
  the values of the metrics are taken when the patterns match nothing. The minimum DO
  is the minimum of the extracted values.
\<close>

theorem do_values_from_text_first:
  assumes "r = extract_do_data re_findall text metrics"
    and "found = findall_each re_findall do_patterns text"
  shows "(found \<noteq> [] \<longrightarrow> do_values r = found \<and> minimum_do r = Some (Min (set found))) \<and>
         (found = [] \<longrightarrow>
            do_values r = (case metrics ''dissolved_oxygen_values'' of
                             None \<Rightarrow> [] | Some vs \<Rightarrow> vs) \<and>
            (do_values r \<noteq> [] \<longrightarrow> minimum_do r = Some (Min (set (do_values r)))))"
proof -
  have dv: "do_values r = (if found \<noteq> [] then found
       else (case metrics ''dissolved_oxygen_values'' of None \<Rightarrow> [] | Some vs \<Rightarrow> vs))"
    unfolding assms by (rule extract_do_data_do_values)
  have mn: "minimum_do r = (case do_values r of [] \<Rightarrow> None | v # vs \<Rightarrow> Some (fold min vs v))"
    unfolding assms(1) by (rule extract_do_data_minimum)
  have mn': "minimum_do r = Some (Min (set (do_values r)))" if "do_values r \<noteq> []"
    using that by (cases "do_values r") (simp_all add: mn fold_min_is_Min del: set_simps)
  show ?thesis
    using dv mn' by auto
qed

lemma reading_found: "findall_each reading_findall do_patterns reading_text = [5]"
  by (simp add: findall_each_def do_patterns_def)

lemma reading_in_metrics: "reading_metrics ''dissolved_oxygen_values'' = Some [1]"
  by (simp add: reading_metrics_def)

text \<open>
  A reading of 5 in the text with a 1 in the metrics, and the same metrics with a text
  in which nothing matches.
\<close>

theorem do_values_from_text_first_witness:
  "do_values (extract_do_data reading_findall reading_text reading_metrics) = [5] \<and>
   minimum_do (extract_do_data reading_findall reading_text reading_metrics) = Some 5 \<and>
   do_values (extract_do_data no_match_findall [] reading_metrics) = [1] \<and>
   minimum_do (extract_do_data no_match_findall [] reading_metrics) = Some 1"
  using do_values_from_text_first [OF refl refl, of reading_findall reading_text reading_metrics]
    do_values_from_text_first [OF refl refl, of no_match_findall "[]" reading_metrics]
  by (simp add: reading_found reading_in_metrics findall_each_def do_patterns_def)

text \<open>
  Claim C7 as stated has the union of both sources. With 5 matched in the text and 1
  in the metrics the extracted values are 5 alone and the minimum is 5, not 1.
\<close>

theorem do_values_not_union_counterexample:
  "findall_each reading_findall do_patterns reading_text = [5] \<and>
   reading_metrics ''dissolved_oxygen_values'' = Some [1] \<and>
   do_values (extract_do_data reading_findall reading_text reading_metrics) = [5] \<and>
   set (do_values (extract_do_data reading_findall reading_text reading_metrics))
     \<noteq> set [5] \<union> set [1] \<and>
   minimum_do (extract_do_data reading_findall reading_text reading_metrics) = Some 5 \<and>
   minimum_do (extract_do_data reading_findall reading_text reading_metrics)
     \<noteq> Some (Min (set [5] \<union> set [1]))"
  by (simp add: extract_do_data_do_values extract_do_data_minimum reading_found
      reading_in_metrics)


section \<open>Properties of the trend fit and of the guards on divisions\<close>

lemma calculate_trend_insufficient:
  assumes "length (clean_data (zip years vals)) < 2"
  shows "calculate_trend linregress years vals =
     Inr \<lparr> trend = InsufficientData, direction = None, slope = None, r_squared = None,
           p_value = None, change_rate = None, first_value = None, last_value = None,
           values_of = vals \<rparr>"
  using assms by (simp add: calculate_trend_def Let_def)

lemma calculate_trend_raises:
  assumes "2 \<le> length (clean_data (zip years vals))"
    and "linregress (map fst (clean_data (zip years vals)))
           (map snd (clean_data (zip years vals))) = Inl e"
  shows "calculate_trend linregress years vals = Inl e"
  using assms by (simp add: calculate_trend_def Let_def)

lemma calculate_trend_analyzed:
  assumes "2 \<le> length (clean_data (zip years vals))"
    and "linregress (map fst (clean_data (zip years vals)))
           (map snd (clean_data (zip years vals))) = Inr (slope_v, intercept, r_value, p, std_err)"
  shows "calculate_trend linregress years vals =
     Inr \<lparr> trend = Analyzed,
           direction = Some (if p < 5 / 100 then
                           (if \<bar>slope_v\<bar> < 1 / 100 then Stable
                            else if slope_v > 0 then Increasing
                            else Decreasing)
                         else NoClearTrend),
           slope = Some slope_v, r_squared = Some (r_value ^ 2), p_value = Some p,
           change_rate =
             (if snd (hd (clean_data (zip years vals))) \<noteq> 0 then
                Some ((snd (last (clean_data (zip years vals))) -
                       snd (hd (clean_data (zip years vals)))) /
                      \<bar>snd (hd (clean_data (zip years vals)))\<bar> * 100)
              else None),
           first_value = Some (snd (hd (clean_data (zip years vals)))),
           last_value = Some (snd (last (clean_data (zip years vals)))),
           values_of = vals \<rparr>"
proof -
  have ne: "clean_data (zip years vals) \<noteq> []" using assms(1) by auto
  show ?thesis
    using assms ne
    by (simp add: calculate_trend_def Let_def py_div_def hd_map last_map)
qed

text \<open>
  Claim C3. A fit over at least two pairs of a year and a non-null value has the
  direction \<open>increasing\<close> or \<open>decreasing\<close> only when the p-value of the regression is
  below 0.05 and the absolute slope is at least 0.01; with a p-value below 0.05 and an
  absolute slope below 0.01 the direction is \<open>stable\<close>; with a p-value of 0.05 or more
  it is \<open>no_clear_trend\<close>. With fewer than two such pairs the result is
  \<open>insufficient_data\<close>.
\<close>

theorem trend_direction_classification:
  assumes "cleaned = clean_data (zip years vals)"
  shows "(length cleaned < 2 \<longrightarrow>
            (\<exists>t. calculate_trend linregress years vals = Inr t \<and>
                 trend t = InsufficientData \<and> direction t = None)) \<and>
         (2 \<le> length cleaned \<and>
          linregress (map fst cleaned) (map snd cleaned) =
            Inr (slope_v, intercept, r_value, p, std_err) \<longrightarrow>
            (\<exists>t. calculate_trend linregress years vals = Inr t \<and> trend t = Analyzed \<and>
                 (direction t = Some Increasing \<or> direction t = Some Decreasing \<longrightarrow>
                    p < 5 / 100 \<and> \<bar>slope_v\<bar> \<ge> 1 / 100) \<and>
                 (p < 5 / 100 \<and> \<bar>slope_v\<bar> < 1 / 100 \<longrightarrow> direction t = Some Stable) \<and>
                 (p < 5 / 100 \<and> slope_v \<ge> 1 / 100 \<longrightarrow> direction t = Some Increasing) \<and>
                 (p < 5 / 100 \<and> slope_v \<le> - 1 / 100 \<longrightarrow> direction t = Some Decreasing) \<and>
                 (p \<ge> 5 / 100 \<longrightarrow> direction t = Some NoClearTrend)))"
proof (intro conjI impI)
  assume "length cleaned < 2"
  then show "\<exists>t. calculate_trend linregress years vals = Inr t \<and>
                 trend t = InsufficientData \<and> direction t = None"
    unfolding assms by (simp add: calculate_trend_insufficient)
next
  assume a: "2 \<le> length cleaned \<and>
          linregress (map fst cleaned) (map snd cleaned) =
            Inr (slope_v, intercept, r_value, p, std_err)"
  show "\<exists>t. calculate_trend linregress years vals = Inr t \<and> trend t = Analyzed \<and>
                 (direction t = Some Increasing \<or> direction t = Some Decreasing \<longrightarrow>
                    p < 5 / 100 \<and> \<bar>slope_v\<bar> \<ge> 1 / 100) \<and>
                 (p < 5 / 100 \<and> \<bar>slope_v\<bar> < 1 / 100 \<longrightarrow> direction t = Some Stable) \<and>
                 (p < 5 / 100 \<and> slope_v \<ge> 1 / 100 \<longrightarrow> direction t = Some Increasing) \<and>
                 (p < 5 / 100 \<and> slope_v \<le> - 1 / 100 \<longrightarrow> direction t = Some Decreasing) \<and>
                 (p \<ge> 5 / 100 \<longrightarrow> direction t = Some NoClearTrend)"
    using a unfolding assms
    by (subst calculate_trend_analyzed [of years vals linregress slope_v intercept r_value p std_err])
       (auto simp add: abs_if split: if_splits)
qed


text \<open>
  The readings 5, 5.001, 5.002 with a significant slope of 0.001 are stable; a
  significant slope of 0.5 is increasing; a p-value of 0.5 gives no clear trend; one
  reading is insufficient data.
\<close>

theorem trend_direction_classification_witness:
  "map_sum id direction
     (calculate_trend flat_fit [2020, 2021, 2022] [Some 5, Some (5001 / 1000), Some (5002 / 1000)])
     = Inr (Some Stable) \<and>
   map_sum id direction
     (calculate_trend steep_fit [2020, 2021, 2022] [Some 5, Some 6, Some 7])
     = Inr (Some Increasing) \<and>
   map_sum id direction
     (calculate_trend noisy_fit [2020, 2021, 2022] [Some 5, Some 9, Some 6])
     = Inr (Some NoClearTrend) \<and>
   map_sum id trend
     (calculate_trend flat_fit [2020, 2021, 2022] [Some 5, None, None])
     = Inr InsufficientData"
  using trend_direction_classification [OF refl, of "[2020, 2021, 2022]"
      "[Some 5, Some (5001 / 1000), Some (5002 / 1000)]" flat_fit
      "1 / 1000" "- 2015 / 1000" 1 "1 / 10000" 0]
    trend_direction_classification [OF refl, of "[2020, 2021, 2022]"
      "[Some 5, Some 6, Some 7]" steep_fit "1 / 2" 0 1 "1 / 10000" 0]
    trend_direction_classification [OF refl, of "[2020, 2021, 2022]"
      "[Some 5, Some 9, Some 6]" noisy_fit "1 / 2" 0 "1 / 10" "1 / 2" 1]
    trend_direction_classification [OF refl, of "[2020, 2021, 2022]"
      "[Some 5, None, None]" flat_fit]
  by (auto simp add: flat_fit_def steep_fit_def noisy_fit_def)

lemma calc_hypoxic_volume_error:
  assumes "calc_hypoxic_volume d h m0 = Inl e"
  shows "e = OverflowError"
proof (cases "can_calculate_hypoxic_volume h \<and> oxycline_depth d \<noteq> None \<and>
              truthy (total_volume h) \<and> truthy (max_depth h)")
  case False
  then have "calc_hypoxic_volume d h m0 = Inr m0"
    by (intro calc_hypoxic_volume_skipped) auto
  with assms show ?thesis by simp
next
  case True
  then obtain oxy tv md where v: "oxycline_depth d = Some oxy" "total_volume h = Some tv"
    "tv \<noteq> 0" "max_depth h = Some md" "md \<noteq> 0"
    by (auto simp add: truthy_def split: option.splits)
  from True have c: "can_calculate_hypoxic_volume h" by simp
  show ?thesis
  proof (cases "float_overflow (((md - oxy) / md) ^ 2)")
    case True
    with assms calc_hypoxic_volume_overflow [OF c v, of m0] show ?thesis by simp
  next
    case False
    with assms calc_hypoxic_volume_computed [OF c v, of m0] show ?thesis by simp
  qed
qed

lemma calculate_trend_error_is_linregress:
  assumes "calculate_trend linregress years vals = Inl e"
  shows "linregress (map fst (clean_data (zip years vals)))
           (map snd (clean_data (zip years vals))) = Inl e"
proof (cases "length (clean_data (zip years vals)) < 2")
  case True
  then show ?thesis using assms by (simp add: calculate_trend_insufficient)
next
  case False
  then have two: "2 \<le> length (clean_data (zip years vals))" by simp
  show ?thesis
  proof (cases "linregress (map fst (clean_data (zip years vals)))
           (map snd (clean_data (zip years vals)))")
    case (Inl e')
    with two assms show ?thesis by (simp add: calculate_trend_raises)
  next
    case (Inr fit)
    obtain a b c d' f where "fit = (a, b, c, d', f)" by (cases fit) auto
    with Inr two assms show ?thesis
      using calculate_trend_analyzed [of years vals linregress a b c d' f] by simp
  qed
qed

lemma calculate_trend_zero_first:
  assumes "calculate_trend linregress years vals = Inr t" and "first_value t = Some 0"
  shows "change_rate t = None"
proof (cases "length (clean_data (zip years vals)) < 2")
  case True
  then show ?thesis using assms by (auto simp add: calculate_trend_insufficient)
next
  case False
  then have two: "2 \<le> length (clean_data (zip years vals))" by simp
  show ?thesis
  proof (cases "linregress (map fst (clean_data (zip years vals)))
           (map snd (clean_data (zip years vals)))")
    case (Inl e')
    with two assms show ?thesis by (simp add: calculate_trend_raises)
  next
    case (Inr fit)
    obtain a b c d' f where "fit = (a, b, c, d', f)" by (cases fit) auto
    with Inr two assms show ?thesis
      using calculate_trend_analyzed [of years vals linregress a b c d' f] by auto
  qed
qed

text \<open>
  Claim C9. No division of the derivation or of the trend fit meets a zero divisor. The
  derivation never raises \<open>ZeroDivisionError\<close>: the division by the maximum depth is
  reached only under the guard that the maximum depth and the total volume are not null
  and not zero, and with a maximum depth or a total volume of zero the derivation
  returns, with the hypoxic volume and its percentage null. The trend fit raises only
  what the regression itself raises: the division of the percentage change is reached
  only when the first value is not zero, and a first value of zero leaves the change
  rate null.
\<close>

theorem divisions_guarded:
  "perform_calculations d n h \<noteq> Inl ZeroDivisionError \<and>
   (max_depth h = Some 0 \<or> total_volume h = Some 0 \<longrightarrow>
      (\<exists>m. perform_calculations d n h = Inr m \<and>
           hypoxic_water_volume m = None \<and> hypoxic_volume_percentage m = None)) \<and>
   (\<forall>e. calculate_trend linregress years vals = Inl e \<longrightarrow>
        linregress (map fst (clean_data (zip years vals)))
          (map snd (clean_data (zip years vals))) = Inl e) \<and>
   (\<forall>t. calculate_trend linregress years vals = Inr t \<and> first_value t = Some 0 \<longrightarrow>
        change_rate t = None)"
proof (intro conjI allI impI)
  show "perform_calculations d n h \<noteq> Inl ZeroDivisionError"
  proof
    assume "perform_calculations d n h = Inl ZeroDivisionError"
    then have "calc_hypoxic_volume d h new_CalculatedMetrics = Inl ZeroDivisionError"
      by (simp add: perform_calculations_def split: sum.splits)
    from calc_hypoxic_volume_error [OF this] show False by simp
  qed
next
  assume z: "max_depth h = Some 0 \<or> total_volume h = Some 0"
  have "calc_hypoxic_volume d h new_CalculatedMetrics = Inr new_CalculatedMetrics"
    using z by (intro calc_hypoxic_volume_skipped) (auto simp add: truthy_def)
  then show "\<exists>m. perform_calculations d n h = Inr m \<and>
           hypoxic_water_volume m = None \<and> hypoxic_volume_percentage m = None"
    by (simp add: perform_calculations_def biomass_keeps_volume sediment_area_keeps_volume
        new_CalculatedMetrics_def)
next
  fix e assume "calculate_trend linregress years vals = Inl e"
  then show "linregress (map fst (clean_data (zip years vals)))
          (map snd (clean_data (zip years vals))) = Inl e"
    by (rule calculate_trend_error_is_linregress)
next
  fix t assume "calculate_trend linregress years vals = Inr t \<and> first_value t = Some 0"
  then show "change_rate t = None"
    using calculate_trend_zero_first by blast
qed

lemma shallow_no_table:
  "list_ex (\<lambda>ind. py_in ind shallow_text) hypso_indicators = False"
  "list_ex (\<lambda>ind. py_in ind shallow_text) bathy_indicators = False"
  by code_simp+

lemma shallow_extracted:
  "extract_hypsographic_data shallow_findall shallow_text =
   \<lparr> has_hypsographic_table = False, has_bathymetry_map = False, max_depth = Some 1,
       total_volume = Some 5, total_surface_area = None,
       can_calculate_hypoxic_volume = True \<rparr>"
  by (simp add: extract_hypsographic_data_def Let_def new_HypsographicData_def
    volume_patterns_def area_patterns_def shallow_no_table)

text \<open>
  An oxycline depth of \<open>10^155\<close> in a lake of one metre: the square of the depth
  fraction is out of range and the derivation raises.
\<close>

lemma deep_fraction_overflows: "float_overflow (((1 - 10 ^ 155) / 1) ^ 2)"
proof -
  have big: "(2::real) ^ 1024 \<le> (10 ^ 155 - 1) ^ 2" by simp
  have e: "((1 - 10 ^ 155) / 1 :: real) ^ 2 = (10 ^ 155 - 1) ^ 2"
    by (simp only: div_by_1) (rule power2_commute)
  have t: "(2::real) ^ 1024 - 2 ^ 970 \<le> 2 ^ 1024" by simp
  have "(2::real) ^ 1024 - 2 ^ 970 \<le> (10 ^ 155 - 1) ^ 2" by (rule order_trans [OF t big])
  then have "(2::real) ^ 1024 - 2 ^ 970 \<le> \<bar>(10 ^ 155 - 1) ^ 2\<bar>" by (simp only: abs_power2)
  then show ?thesis by (simp only: float_overflow_def e)
qed

lemma oxycline_at_depth: "oxycline_depth (oxycline_at oxy) = Some oxy"
  by (simp add: oxycline_at_def new_ExtractedDOData_def)

lemma deep_oxycline_overflows:
  "perform_calculations (oxycline_at (10 ^ 155)) new_ExtractedNutrientData
     (extract_hypsographic_data shallow_findall shallow_text) = Inl OverflowError"
proof -
  have can: "can_calculate_hypoxic_volume (extract_hypsographic_data shallow_findall shallow_text)"
    and tv: "total_volume (extract_hypsographic_data shallow_findall shallow_text) = Some 5"
    and md: "max_depth (extract_hypsographic_data shallow_findall shallow_text) = Some 1"
    by (simp_all only: shallow_extracted HypsographicData.simps)
  have ox: "oxycline_depth (oxycline_at (10 ^ 155)) = Some (10 ^ 155)"
    by (rule oxycline_at_depth)
  have "calc_hypoxic_volume (oxycline_at (10 ^ 155))
     (extract_hypsographic_data shallow_findall shallow_text) new_CalculatedMetrics =
     Inl OverflowError"
    by (rule calc_hypoxic_volume_overflow [OF can ox tv _ md _ deep_fraction_overflows])
       simp_all
  then show ?thesis by (simp only: perform_calculations_def sum.case)
qed

lemma zero_depth_no_table:
  "list_ex (\<lambda>ind. py_in ind zero_depth_text) hypso_indicators = False"
  "list_ex (\<lambda>ind. py_in ind zero_depth_text) bathy_indicators = False"
  by code_simp+

lemma zero_depth_extracted:
  "extract_hypsographic_data zero_depth_findall zero_depth_text =
   \<lparr> has_hypsographic_table = False, has_bathymetry_map = False, max_depth = Some 0,
       total_volume = Some 100000, total_surface_area = None,
       can_calculate_hypoxic_volume = True \<rparr>"
  by (simp add: extract_hypsographic_data_def Let_def new_HypsographicData_def
    volume_patterns_def area_patterns_def zero_depth_no_table)

lemma trend_from_zero:
  "calculate_trend steep_fit [2020, 2021] [Some 0, Some 1] =
     Inr \<lparr> trend = Analyzed, direction = Some Increasing, slope = Some (1 / 2),
           r_squared = Some 1, p_value = Some (1 / 10000), change_rate = None,
           first_value = Some 0, last_value = Some 1, values_of = [Some 0, Some 1] \<rparr>"
  by (simp add: calculate_trend_def steep_fit_def Let_def)

lemma trend_raises:
  "calculate_trend linregress_raises [2020, 2021] [Some 1, Some 2] = Inl ValueError"
  by (simp add: calculate_trend_def linregress_raises_def Let_def)

text \<open>
  A maximum depth of zero, a total volume of zero, a regression that raises, and a
  series that starts at zero.
\<close>

theorem divisions_guarded_witness:
  "map_sum id hypoxic_water_volume
     (perform_calculations (oxycline_at 12) new_ExtractedNutrientData
        (extract_hypsographic_data zero_depth_findall zero_depth_text)) = Inr None \<and>
   map_sum id hypoxic_volume_percentage
     (perform_calculations (oxycline_at 12) new_ExtractedNutrientData
        (extract_hypsographic_data zero_volume_findall zero_volume_text)) = Inr None \<and>
   linregress_raises [2020, 2021] [1, 2] = Inl ValueError \<and>
   map_sum id change_rate (calculate_trend steep_fit [2020, 2021] [Some 0, Some 1]) = Inr None"
  using divisions_guarded [of "oxycline_at 12" new_ExtractedNutrientData
      "extract_hypsographic_data zero_depth_findall zero_depth_text"
      linregress_raises "[2020, 2021]" "[Some 1, Some 2]"]
    divisions_guarded [of "oxycline_at 12" new_ExtractedNutrientData
      "extract_hypsographic_data zero_volume_findall zero_volume_text"
      steep_fit "[2020, 2021]" "[Some 0, Some 1]"]
  by (auto simp add: zero_depth_extracted zero_volume_extracted trend_from_zero trend_raises)


section \<open>Properties of the gate on trend analysis\<close>

lemma analyze_insufficient:
  assumes "length (years_of reports) < 3"
  shows "analyze_parameter_trends linregress reports =
     Inr \<lparr> years_of_trends = years_of reports, parameters = [],
           overall_trajectory = Some ''Insufficient data for trend analysis'',
           key_findings = [], recommendations_of = [] \<rparr>"
  using assms by (simp add: analyze_parameter_trends_def minimum_reports_for_trends_def)

lemma trajectory_never_insufficient:
  "determine_overall_trajectory params \<noteq> ''Insufficient data for trend analysis''"
  by (simp add: determine_overall_trajectory_def split: prod.splits)

lemma analyze_enough:
  assumes "3 \<le> length (years_of reports)"
    and "analyze_parameter_trends linregress reports = Inr t"
  shows "overall_trajectory t \<noteq> Some ''Insufficient data for trend analysis''"
  using assms trajectory_never_insufficient
  by (auto simp add: analyze_parameter_trends_def minimum_reports_for_trends_def Let_def
      split: sum.splits)

lemma map_fst_add_to_group:
  "map fst (add_to_group k r groups) =
     (if k \<in> set (map fst groups) then map fst groups else map fst groups @ [k])"
proof (induction groups)
  case Nil
  then show ?case by simp
next
  case (Cons g groups)
  obtain k' rs where g: "g = (k', rs)" by (cases g) auto
  show ?case
  proof (cases "k = k'")
    case True
    then show ?thesis by (simp add: g)
  next
    case False
    then show ?thesis using Cons.IH by (cases "k \<in> set (map fst groups)") (simp_all add: g)
  qed
qed

lemma distinct_add_to_group:
  "distinct (map fst groups) \<Longrightarrow> distinct (map fst (add_to_group k r groups))"
  by (simp add: map_fst_add_to_group)

lemma distinct_fold_groups:
  assumes "distinct (map fst groups)"
  shows "distinct (map fst (fold (\<lambda>r groups.
                    case ex r of
                      (Some name, year) \<Rightarrow>
                        if name \<noteq> [] then
                          add_to_group (py_strip (py_lower name))
                            (r \<lparr> extracted_year := year, lake_name := Some name \<rparr>) groups
                        else groups
                    | (None, year) \<Rightarrow> groups) reports groups))"
  using assms
proof (induction reports arbitrary: groups)
  case Nil
  then show ?case by simp
next
  case (Cons r reports)
  show ?case
    by (simp, rule Cons.IH) (auto simp add: distinct_add_to_group Cons.prems split: prod.splits option.splits)
qed

lemma group_names_distinct:
  "distinct (map fst (group_reports_by_lake ex reports))"
proof -
  have "map fst (group_reports_by_lake ex reports) =
        map fst (fold (\<lambda>r groups.
                    case ex r of
                      (Some name, year) \<Rightarrow>
                        if name \<noteq> [] then
                          add_to_group (py_strip (py_lower name))
                            (r \<lparr> extracted_year := year, lake_name := Some name \<rparr>) groups
                        else groups
                    | (None, year) \<Rightarrow> groups) reports [])"
    by (simp add: group_reports_by_lake_def Let_def case_prod_beta comp_def)
  then show ?thesis using distinct_fold_groups [of "[]" ex reports] by simp
qed

lemma assess_groups_entries:
  assumes "assess_groups linregress groups acc = Inr res" and "(name, a) \<in> set res"
  shows "(name, a) \<in> set acc \<or>
         ((name, individual_reports a) \<in> set groups \<and>
          3 \<le> length (remdups (years_of (individual_reports a))) \<and>
          analyze_parameter_trends linregress (individual_reports a) = Inr (trend_analysis a))"
  using assms
proof (induction groups arbitrary: acc)
  case Nil
  then show ?case by simp
next
  case (Cons g groups)
  obtain gname rs where g: "g = (gname, rs)" by (cases g) auto
  show ?case
  proof (cases "3 \<le> length (remdups (years_of rs))")
    case False
    then have "assess_groups linregress groups acc = Inr res"
      using Cons.prems(1) by (simp add: g minimum_reports_for_trends_def)
    from Cons.IH [OF this Cons.prems(2)] show ?thesis by auto
  next
    case True
    show ?thesis
    proof (cases "analyze_parameter_trends linregress rs")
      case (Inl e)
      with True Cons.prems(1) show ?thesis
        by (simp add: g minimum_reports_for_trends_def)
    next
      case (Inr analysis)
      define entry where "entry =
         \<lparr> assessed_lake_name = (case lake_name (hd rs) of None \<Rightarrow> gname | Some n \<Rightarrow> n),
           reports_analyzed = length rs,
           year_range = (fold min (tl (years_of rs)) (hd (years_of rs)),
                         fold max (tl (years_of rs)) (hd (years_of rs))),
           trend_analysis = analysis, individual_reports = rs \<rparr>"
      have "assess_groups linregress groups (acc @ [(gname, entry)]) = Inr res"
        using True Inr Cons.prems(1)
        by (simp add: g minimum_reports_for_trends_def entry_def Let_def)
      from Cons.IH [OF this Cons.prems(2)]
      show ?thesis using True Inr by (auto simp add: g entry_def)
    qed
  qed
qed


text \<open>
  Claim C4, as the code has it. \<open>analyze_parameter_trends\<close> counts the records that
  carry a year, not the distinct years: with fewer than three such records it returns
  the trajectory "Insufficient data for trend analysis" and no parameter trends, and
  with three or more it never returns that trajectory. The distinct years are counted
  by \<open>perform_assessment\<close>: every assessment it returns is of a group with at least
  three distinct years, and a group with fewer than three distinct years gets no
  assessment at all, however many records it holds.
\<close>

theorem trend_gating:
  "(length (years_of reports) < 3 \<longrightarrow>
      analyze_parameter_trends linregress reports =
        Inr \<lparr> years_of_trends = years_of reports, parameters = [],
              overall_trajectory = Some ''Insufficient data for trend analysis'',
              key_findings = [], recommendations_of = [] \<rparr>) \<and>
   (\<forall>t. 3 \<le> length (years_of reports) \<and>
        analyze_parameter_trends linregress reports = Inr t \<longrightarrow>
        overall_trajectory t \<noteq> Some ''Insufficient data for trend analysis'') \<and>
   (\<forall>assessments name a.
        perform_assessment ex linregress submitted = Inr assessments \<and>
        (name, a) \<in> set assessments \<longrightarrow>
        (name, individual_reports a) \<in> set (group_reports_by_lake ex submitted) \<and>
        3 \<le> card (set (years_of (individual_reports a)))) \<and>
   (\<forall>assessments name lake_reports.
        perform_assessment ex linregress submitted = Inr assessments \<and>
        (name, lake_reports) \<in> set (group_reports_by_lake ex submitted) \<and>
        card (set (years_of lake_reports)) < 3 \<longrightarrow>
        name \<notin> fst ` set assessments)"
proof (intro conjI allI impI)
  assume "length (years_of reports) < 3"
  then show "analyze_parameter_trends linregress reports =
        Inr \<lparr> years_of_trends = years_of reports, parameters = [],
              overall_trajectory = Some ''Insufficient data for trend analysis'',
              key_findings = [], recommendations_of = [] \<rparr>"
    by (rule analyze_insufficient)
next
  fix t
  assume "3 \<le> length (years_of reports) \<and> analyze_parameter_trends linregress reports = Inr t"
  then show "overall_trajectory t \<noteq> Some ''Insufficient data for trend analysis''"
    using analyze_enough by blast
next
  fix assessments name a
  assume a: "perform_assessment ex linregress submitted = Inr assessments \<and>
        (name, a) \<in> set assessments"
  then have "assess_groups linregress (group_reports_by_lake ex submitted) [] = Inr assessments"
    by (simp add: perform_assessment_def)
  from assess_groups_entries [OF this] a
  have "(name, individual_reports a) \<in> set (group_reports_by_lake ex submitted) \<and>
        3 \<le> length (remdups (years_of (individual_reports a)))"
    by auto
  then show "(name, individual_reports a) \<in> set (group_reports_by_lake ex submitted)"
    "3 \<le> card (set (years_of (individual_reports a)))"
    by (simp_all add: length_remdups_card_conv)
next
  fix assessments name lake_reports
  assume a: "perform_assessment ex linregress submitted = Inr assessments \<and>
        (name, lake_reports) \<in> set (group_reports_by_lake ex submitted) \<and>
        card (set (years_of lake_reports)) < 3"
  then have run: "assess_groups linregress (group_reports_by_lake ex submitted) [] = Inr assessments"
    by (simp add: perform_assessment_def)
  show "name \<notin> fst ` set assessments"
  proof
    assume "name \<in> fst ` set assessments"
    then obtain e where e: "(name, e) \<in> set assessments" by auto
    from assess_groups_entries [OF run e]
    have g: "(name, individual_reports e) \<in> set (group_reports_by_lake ex submitted)"
      and c: "3 \<le> length (remdups (years_of (individual_reports e)))"
      by auto
    have "individual_reports e = lake_reports"
      using g a group_names_distinct [of ex submitted]
      by (meson eq_key_imp_eq_value)
    with c a show False by (simp add: length_remdups_card_conv)
  qed
qed

lemma no_numbers: "parameter_value param (report_of_year y) = None"
  by (simp add: parameter_value_def report_of_year_def)

lemma nothing_to_track:
  "track_parameters linregress years (map report_of_year ys) params acc = Inr acc"
  by (induction params arbitrary: acc) (simp_all add: list_ex_iff no_numbers Let_def)

lemma years_of_report_years:
  "years_of two_year_group = [2020, 2020, 2020, 2021, 2021]"
  "years_of three_year_group = [2019, 2020, 2021]"
  "years_of two_reports = [2020, 2021]"
  by (simp_all add: two_year_group_def three_year_group_def two_reports_def report_of_year_def)

lemma stable_without_parameters:
  "determine_overall_trajectory [] = ''Stable - Monitor Closely for Changes''"
  "generate_key_findings [] = []"
  "generate_trend_recommendations [] =
     [''Continue regular monitoring and maintain current management practices'']"
  by (simp_all add: determine_overall_trajectory_def generate_key_findings_def
      generate_trend_recommendations_def direction_of_def)

lemma two_year_group_analysis:
  "analyze_parameter_trends linregress two_year_group =
     Inr \<lparr> years_of_trends = [2020, 2020, 2020, 2021, 2021], parameters = [],
           overall_trajectory = Some ''Stable - Monitor Closely for Changes'',
           key_findings = [],
           recommendations_of =
             [''Continue regular monitoring and maintain current management practices''] \<rparr>"
proof -
  have "track_parameters linregress (years_of two_year_group) two_year_group
          parameters_to_track [] = Inr []"
    unfolding two_year_group_def by (rule nothing_to_track)
  then show ?thesis
    by (simp add: analyze_parameter_trends_def years_of_report_years
        minimum_reports_for_trends_def stable_without_parameters)
qed

lemma three_year_group_analysis:
  "analyze_parameter_trends linregress three_year_group =
     Inr \<lparr> years_of_trends = [2019, 2020, 2021], parameters = [],
           overall_trajectory = Some ''Stable - Monitor Closely for Changes'',
           key_findings = [],
           recommendations_of =
             [''Continue regular monitoring and maintain current management practices''] \<rparr>"
proof -
  have "track_parameters linregress (years_of three_year_group) three_year_group
          parameters_to_track [] = Inr []"
    unfolding three_year_group_def by (rule nothing_to_track)
  then show ?thesis
    by (simp add: analyze_parameter_trends_def years_of_report_years
        minimum_reports_for_trends_def stable_without_parameters)
qed

lemma austin_lake_key: "py_strip (py_lower ''Austin Lake'') = ''austin lake''"
  by code_simp

lemma stated_of_report:
  "stated_name_and_year (report_of_year y) = (Some ''Austin Lake'', Some y)"
  "report_of_year y \<lparr> extracted_year := Some y, lake_name := Some ''Austin Lake'' \<rparr> =
     report_of_year y"
  "year_or_zero (report_of_year y) = y"
  by (simp_all add: stated_name_and_year_def report_of_year_def year_or_zero_def)

lemma two_year_group_grouped:
  "group_reports_by_lake stated_name_and_year two_year_group = [(''austin lake'', two_year_group)]"
  by (simp add: group_reports_by_lake_def two_year_group_def stated_of_report austin_lake_key)

lemma three_year_group_grouped:
  "group_reports_by_lake stated_name_and_year three_year_group =
     [(''austin lake'', three_year_group)]"
  by (simp add: group_reports_by_lake_def three_year_group_def stated_of_report austin_lake_key)

lemma two_year_group_not_assessed:
  "perform_assessment stated_name_and_year linregress two_year_group = Inr []"
  by (simp add: perform_assessment_def two_year_group_grouped years_of_report_years
      minimum_reports_for_trends_def)

lemma three_year_group_assessed:
  "perform_assessment stated_name_and_year linregress three_year_group =
     Inr [(''austin lake'',
           \<lparr> assessed_lake_name = ''Austin Lake'', reports_analyzed = 3,
             year_range = (2019, 2021),
             trend_analysis =
               \<lparr> years_of_trends = [2019, 2020, 2021], parameters = [],
                 overall_trajectory = Some ''Stable - Monitor Closely for Changes'',
                 key_findings = [],
                 recommendations_of =
                   [''Continue regular monitoring and maintain current management practices''] \<rparr>,
             individual_reports = three_year_group \<rparr>)]"
  by (simp add: perform_assessment_def three_year_group_grouped years_of_report_years
      minimum_reports_for_trends_def three_year_group_analysis)
     (simp add: three_year_group_def report_of_year_def)


text \<open>
  Two reports of two years; five reports of two years; three reports of three years.
\<close>

theorem trend_gating_witness:
  "length (years_of two_reports) < 3 \<and>
   analyze_parameter_trends linregress_raises two_reports =
     Inr \<lparr> years_of_trends = [2020, 2021], parameters = [],
           overall_trajectory = Some ''Insufficient data for trend analysis'',
           key_findings = [], recommendations_of = [] \<rparr> \<and>
   3 \<le> length (years_of two_year_group) \<and>
   Some ''Stable - Monitor Closely for Changes'' \<noteq> Some ''Insufficient data for trend analysis'' \<and>
   (''austin lake'', three_year_group) \<in>
      set (group_reports_by_lake stated_name_and_year three_year_group) \<and>
   3 \<le> card (set (years_of three_year_group)) \<and>
   perform_assessment stated_name_and_year linregress_raises two_year_group = Inr [] \<and>
   (''austin lake'', two_year_group) \<in>
      set (group_reports_by_lake stated_name_and_year two_year_group) \<and>
   card (set (years_of two_year_group)) < 3"
  using trend_gating [of two_reports linregress_raises stated_name_and_year three_year_group]
    trend_gating [of two_year_group linregress_raises stated_name_and_year two_year_group]
  by (simp add: years_of_report_years two_year_group_analysis three_year_group_assessed
      two_year_group_not_assessed two_year_group_grouped three_year_group_grouped)

text \<open>
  Claim C4 as stated has a report with the trajectory of insufficient data for a group
  of five records from two distinct years. The trend analysis of such a group runs and
  returns the trajectory "Stable - Monitor Closely for Changes"; the assessment
  returns nothing for it.
\<close>

theorem two_years_five_records_counterexample:
  "length two_year_group = 5 \<and>
   card (set (years_of two_year_group)) = 2 \<and>
   analyze_parameter_trends linregress_raises two_year_group =
     Inr \<lparr> years_of_trends = [2020, 2020, 2020, 2021, 2021], parameters = [],
           overall_trajectory = Some ''Stable - Monitor Closely for Changes'',
           key_findings = [],
           recommendations_of =
             [''Continue regular monitoring and maintain current management practices''] \<rparr> \<and>
   ''Stable - Monitor Closely for Changes'' \<noteq> ''Insufficient data for trend analysis'' \<and>
   perform_assessment stated_name_and_year linregress_raises two_year_group = Inr []"
  by (simp add: years_of_report_years two_year_group_analysis two_year_group_not_assessed)
     (simp add: two_year_group_def)


section \<open>Properties of the compliance score\<close>

lemma add_score_fields:
  "overall_score (add_score d e) = overall_score e + d"
  "calculations_found (add_score d e) = calculations_found e"
  "calculations_missing (add_score d e) = calculations_missing e"
  "strengths (add_score d e) = strengths e"
  "weaknesses (add_score d e) = weaknesses e"
  by (simp_all add: add_score_def)

lemma fold_add_score: "overall_score (fold add_score deltas e) = overall_score e + sum_list deltas"
  by (induction deltas arbitrary: e) (simp_all add: add_score_fields)

lemma calculate_score_fields:
  "overall_score (calculate_score e) = max 0 (min 100 (50 + overall_score e))"
  "compliance_percentage (calculate_score e) = max 0 (min 100 (50 + overall_score e))"
  by (simp_all add: calculate_score_def Let_def)

text \<open>
  Claim C5. The final compliance score is 50 plus the sum of the deltas that were added
  to the score, clamped into the range from 0 to 100: a sum below -50 gives exactly 0,
  a sum above 50 gives exactly 100, and a sum of zero gives exactly 50. The compliance
  percentage is the same number.
\<close>

theorem score_is_clamped_sum:
  "overall_score (calculate_score (fold add_score deltas new_evaluation)) =
     max 0 (min 100 (50 + sum_list deltas)) \<and>
   compliance_percentage (calculate_score (fold add_score deltas new_evaluation)) =
     overall_score (calculate_score (fold add_score deltas new_evaluation)) \<and>
   0 \<le> overall_score (calculate_score e) \<and> overall_score (calculate_score e) \<le> 100 \<and>
   (sum_list deltas < - 50 \<longrightarrow>
      overall_score (calculate_score (fold add_score deltas new_evaluation)) = 0) \<and>
   (sum_list deltas > 50 \<longrightarrow>
      overall_score (calculate_score (fold add_score deltas new_evaluation)) = 100) \<and>
   (sum_list deltas = 0 \<longrightarrow>
      overall_score (calculate_score (fold add_score deltas new_evaluation)) = 50)"
  by (simp add: calculate_score_fields fold_add_score new_evaluation_def)

text \<open>
  Deltas that sum to -55, to 55, no delta, and a half credit with a full one.
\<close>

theorem score_is_clamped_sum_witness:
  "overall_score (calculate_score (fold add_score [- 15, - 15, - 15, - 10] new_evaluation)) = 0 \<and>
   overall_score (calculate_score (fold add_score [15, 15, 15, 10] new_evaluation)) = 100 \<and>
   overall_score (calculate_score (fold add_score [] new_evaluation)) = 50 \<and>
   overall_score (calculate_score (fold add_score [15 / 2, 15] new_evaluation)) = 145 / 2"
  using score_is_clamped_sum [of "[- 15, - 15, - 15, - 10]" new_evaluation]
    score_is_clamped_sum [of "[15, 15, 15, 10]" new_evaluation]
    score_is_clamped_sum [of "[]" new_evaluation]
    score_is_clamped_sum [of "[15 / 2, 15]" new_evaluation]
  by simp


lemma related_percentage_found:
  assumes "related_calcs absolute = Some percentage"
  shows "py_get (percentage_found params_found) percentage False =
         py_get params_found (''calc_'' @ percentage) False"
  using assms
  by (auto simp add: related_calcs_def percentage_found_def py_get_def split: if_splits)

lemma evaluate_calculation_partial:
  assumes "related_calcs absolute = Some percentage"
    and "py_get params_found (''calc_'' @ percentage) False"
    and "\<not> py_get params_found (''calc_'' @ absolute) False"
  shows "evaluate_calculation weights params_found (absolute, info) e =
     add_score (py_get weights ''critical_calculation_present'' 15 * (1 / 2))
       (e \<lparr> calculations_found := calculations_found e @
              [\<lparr> entry_name = absolute,
                 entry_formula = (case formula info of None \<Rightarrow> [] | Some f \<Rightarrow> f),
                 entry_importance = (case importance info of None \<Rightarrow> [] | Some i \<Rightarrow> i),
                 entry_status = Some partial_status \<rparr>] \<rparr>)"
  using assms related_percentage_found [OF assms(1), of params_found]
  by (simp add: evaluate_calculation_def Let_def)

lemma evaluate_calculation_missing_names:
  "entry_name ` set (calculations_missing (evaluate_calculation weights params_found (k, info) e))
     \<subseteq> insert k (entry_name ` set (calculations_missing e))"
  by (auto simp add: evaluate_calculation_def Let_def add_score_fields split: option.splits)

lemma evaluate_calculation_found_grows:
  "set (calculations_found e) \<subseteq>
   set (calculations_found (evaluate_calculation weights params_found item e))"
  by (cases item)
     (auto simp add: evaluate_calculation_def Let_def add_score_fields split: option.splits)

lemma fold_found_grows:
  "c \<in> set (calculations_found e) \<Longrightarrow>
   c \<in> set (calculations_found (fold (evaluate_calculation weights params_found) items e))"
proof (induction items arbitrary: e)
  case Nil
  then show ?case by simp
next
  case (Cons item items)
  have "c \<in> set (calculations_found (evaluate_calculation weights params_found item e))"
    using Cons.prems evaluate_calculation_found_grows by blast
  then show ?case by (simp add: Cons.IH)
qed

lemma fold_not_missing:
  assumes "related_calcs absolute = Some percentage"
    and "py_get params_found (''calc_'' @ percentage) False"
    and "\<not> py_get params_found (''calc_'' @ absolute) False"
    and "absolute \<notin> entry_name ` set (calculations_missing e)"
  shows "absolute \<notin> entry_name ` set (calculations_missing
           (fold (evaluate_calculation weights params_found) items e))"
  using assms(4)
proof (induction items arbitrary: e)
  case Nil
  then show ?case by simp
next
  case (Cons item items)
  obtain k info where item: "item = (k, info)" by (cases item) auto
  have "absolute \<notin> entry_name ` set (calculations_missing
           (evaluate_calculation weights params_found item e))"
  proof (cases "k = absolute")
    case True
    then show ?thesis
      using Cons.prems
      by (simp add: item evaluate_calculation_partial [OF assms(1-3)] add_score_fields)
  next
    case False
    then show ?thesis
      using Cons.prems evaluate_calculation_missing_names [of weights params_found k info e]
      by (auto simp add: item)
  qed
  then show ?case by (simp add: Cons.IH)
qed

lemma fold_partial_recorded:
  assumes "related_calcs absolute = Some percentage"
    and "py_get params_found (''calc_'' @ percentage) False"
    and "\<not> py_get params_found (''calc_'' @ absolute) False"
    and "absolute \<in> fst ` set items"
  shows "\<exists>c \<in> set (calculations_found (fold (evaluate_calculation weights params_found) items e)).
           entry_name c = absolute \<and> entry_status c = Some partial_status"
  using assms(4)
proof (induction items arbitrary: e)
  case Nil
  then show ?case by simp
next
  case (Cons item items)
  obtain k info where item: "item = (k, info)" by (cases item) auto
  show ?case
  proof (cases "k = absolute")
    case True
    define c where "c = \<lparr> entry_name = absolute,
                 entry_formula = (case formula info of None \<Rightarrow> [] | Some f \<Rightarrow> f),
                 entry_importance = (case importance info of None \<Rightarrow> [] | Some i \<Rightarrow> i),
                 entry_status = Some partial_status \<rparr>"
    have "c \<in> set (calculations_found (evaluate_calculation weights params_found item e))"
      by (simp add: item True evaluate_calculation_partial [OF assms(1-3)] add_score_fields
          c_def)
    then have "c \<in> set (calculations_found
         (fold (evaluate_calculation weights params_found) (item # items) e))"
      by (simp add: fold_found_grows)
    moreover have "entry_name c = absolute \<and> entry_status c = Some partial_status"
      by (simp add: c_def)
    ultimately show ?thesis by blast
  next
    case False
    then have "absolute \<in> fst ` set items" using Cons.prems by (auto simp add: item)
    from Cons.IH [OF this] show ?thesis by simp
  qed
qed

text \<open>
  Claim C6. When the percentage variant of a paired calculation is found and the
  absolute calculation is not, the absolute calculation is never put into
  \<open>calculations.missing\<close>; where the rules require it, it is recorded among the found
  calculations with the status "partial", and its step of the loop adds exactly half of
  the weight of a present calculation to the score and writes no weakness.
\<close>

theorem paired_calculation_half_credit:
  assumes "related_calcs absolute = Some percentage"
    and "py_get params_found (''calc_'' @ percentage) False"
    and "\<not> py_get params_found (''calc_'' @ absolute) False"
  shows "(absolute \<notin> entry_name ` set (calculations_missing e) \<longrightarrow>
            absolute \<notin> entry_name ` set (calculations_missing
                          (evaluate_calculations rs params_found e))) \<and>
         (absolute \<in> fst ` set (critical_calculations rs) \<longrightarrow>
            (\<exists>c \<in> set (calculations_found (evaluate_calculations rs params_found e)).
               entry_name c = absolute \<and> entry_status c = Some partial_status)) \<and>
         overall_score (evaluate_calculation (scoring_weights rs) params_found (absolute, info) e) =
           overall_score e + py_get (scoring_weights rs) ''critical_calculation_present'' 15 / 2 \<and>
         calculations_missing
           (evaluate_calculation (scoring_weights rs) params_found (absolute, info) e) =
           calculations_missing e \<and>
         weaknesses (evaluate_calculation (scoring_weights rs) params_found (absolute, info) e) =
           weaknesses e"
proof (intro conjI impI)
  assume "absolute \<notin> entry_name ` set (calculations_missing e)"
  then show "absolute \<notin> entry_name ` set (calculations_missing
                          (evaluate_calculations rs params_found e))"
    unfolding evaluate_calculations_def by (rule fold_not_missing [OF assms])
next
  assume "absolute \<in> fst ` set (critical_calculations rs)"
  then show "\<exists>c \<in> set (calculations_found (evaluate_calculations rs params_found e)).
               entry_name c = absolute \<and> entry_status c = Some partial_status"
    unfolding evaluate_calculations_def by (rule fold_partial_recorded [OF assms])
qed (simp_all add: evaluate_calculation_partial [OF assms] add_score_fields)

lemma hypoxia_related:
  "related_calcs ''hypoxic_water_volume'' = Some ''hypoxic_percentage_volume''"
  by (simp add: related_calcs_def)

lemma percentage_only_found:
  "py_get percentage_only (''calc_'' @ ''hypoxic_percentage_volume'') False"
  "\<not> py_get percentage_only (''calc_'' @ ''hypoxic_water_volume'') False"
  by (simp_all add: percentage_only_def py_get_def)

lemma percentage_only_evaluated:
  "evaluate_calculations hypoxia_rules percentage_only new_evaluation =
     \<lparr> overall_score = 45 / 2, compliance_percentage = 0,
       calculations_found =
         [\<lparr> entry_name = ''hypoxic_water_volume'', entry_formula = [], entry_importance = [],
            entry_status = Some partial_status \<rparr>,
          \<lparr> entry_name = ''hypoxic_percentage_volume'', entry_formula = [],
            entry_importance = [], entry_status = None \<rparr>],
       calculations_missing = [],
       strengths = [''Performs hypoxic percentage volume calculation''],
       weaknesses = [] \<rparr>"
  by (simp add: evaluate_calculations_def hypoxia_rules_def evaluate_calculation_def
      percentage_only_def py_get_def related_calcs_def percentage_found_def default_weights_def
      add_score_def new_evaluation_def no_info_def spaced_def Let_def)

text \<open>
  Rules that require the hypoxic water volume and its percentage, with the default
  weights, and a document in which only the percentage is found: 7.5 for the volume and
  15 for the percentage.
\<close>

theorem paired_calculation_half_credit_witness:
  "''hypoxic_water_volume'' \<notin>
     entry_name ` set (calculations_missing
        (evaluate_calculations hypoxia_rules percentage_only new_evaluation)) \<and>
   calculations_found (evaluate_calculations hypoxia_rules percentage_only new_evaluation) =
     [\<lparr> entry_name = ''hypoxic_water_volume'', entry_formula = [], entry_importance = [],
        entry_status = Some partial_status \<rparr>,
      \<lparr> entry_name = ''hypoxic_percentage_volume'', entry_formula = [],
        entry_importance = [], entry_status = None \<rparr>] \<and>
   overall_score (evaluate_calculation default_weights percentage_only
                    (''hypoxic_water_volume'', no_info) new_evaluation) = 15 / 2 \<and>
   overall_score (evaluate_calculations hypoxia_rules percentage_only new_evaluation) =
     15 / 2 + 15"
  using paired_calculation_half_credit [OF hypoxia_related percentage_only_found,
      of new_evaluation hypoxia_rules no_info]
  by (simp add: percentage_only_evaluated)
     (simp add: hypoxia_rules_def new_evaluation_def default_weights_def py_get_def)

end
